theory Spec2Isabelle
  imports Main
begin

section \<open>JavaScript strings and truthiness\<close>

text \<open>
  The handlers test optional strings by truthiness (\<^verbatim>\<open>if (x)\<close>, \<^verbatim>\<open>a || b\<close>):
  \<^verbatim>\<open>undefined\<close> and the empty string are falsy, every other string is truthy.
  An optional value is an \<open>option\<close>; \<open>None\<close> is \<^verbatim>\<open>undefined\<close>.
\<close>

fun truthy :: "string option \<Rightarrow> bool" where
  "truthy None = False"
| "truthy (Some s) = (s \<noteq> [])"

text \<open>\<^verbatim>\<open>a || d\<close> for an optional string \<open>a\<close> and a string \<open>d\<close>.\<close>

fun or_else :: "string option \<Rightarrow> string \<Rightarrow> string" where
  "or_else None d = d"
| "or_else (Some s) d = (if s = [] then d else s)"

fun truthy_bool :: "bool option \<Rightarrow> bool" where
  "truthy_bool None = False"
| "truthy_bool (Some b) = b"

text \<open>\<^verbatim>\<open>s.includes(sub)\<close>: \<open>sub\<close> occurs in \<open>s\<close> as a contiguous substring.\<close>

fun includes_str :: "string \<Rightarrow> string \<Rightarrow> bool" where
  "includes_str [] sub = (sub = [])"
| "includes_str (c # cs) sub = (take (length sub) (c # cs) = sub \<or> includes_str cs sub)"

text \<open>\<^verbatim>\<open>xs.join(sep)\<close>.\<close>

fun join :: "string \<Rightarrow> string list \<Rightarrow> string" where
  "join sep [] = []"
| "join sep [x] = x"
| "join sep (x # y # ys) = x @ sep @ join sep (y # ys)"

text \<open>\<^verbatim>\<open>String(n)\<close> for a positive integer: its decimal digits.\<close>

fun String_nat :: "nat \<Rightarrow> string" where
  "String_nat n =
     (if n < 10 then [''0123456789'' ! n]
      else String_nat (n div 10) @ [''0123456789'' ! (n mod 10)])"

definition String_int :: "int \<Rightarrow> string" where
  "String_int i = (if i < 0 then CHR ''-'' # String_nat (nat (- i)) else String_nat (nat i))"

text \<open>\<^verbatim>\<open>s.toLowerCase()\<close> on the ASCII letters.\<close>

definition toLowerCase_char :: "char \<Rightarrow> char" where
  "toLowerCase_char c =
     (let n = (of_char c :: nat) in if 65 \<le> n \<and> n \<le> 90 then char_of (n + 32) else c)"

definition toLowerCase :: "string \<Rightarrow> string" where
  "toLowerCase s = map toLowerCase_char s"

section \<open>JavaScript values\<close>

text \<open>
  What \<^verbatim>\<open>JSON.parse\<close> can return. The handlers declare the response text a string, but
  they assign it from the parsed output unchecked, so a response is any such value. A
  number is kept as the text \<^verbatim>\<open>String\<close> prints for it, which determines the number (JSON
  has no NaN and no infinities).
\<close>

datatype jsval =
    JNull
  | JBool bool
  | JNum string
  | JStr string
  | JArr "jsval list"
  | JObj "(string \<times> jsval) list"

text \<open>
  What a template literal makes of a value: a string is itself; an array is its elements
  joined by commas, with null elements empty; an object is \<^verbatim>\<open>[object Object]\<close>.
\<close>

fun toString_js :: "jsval \<Rightarrow> string" where
  "toString_js JNull = ''null''"
| "toString_js (JBool b) = (if b then ''true'' else ''false'')"
| "toString_js (JNum t) = t"
| "toString_js (JStr s) = s"
| "toString_js (JArr xs) = join '','' (map (\<lambda>x. if x = JNull then [] else toString_js x) xs)"
| "toString_js (JObj kvs) = ''[object Object]''"

text \<open>
  \<^verbatim>\<open>v.includes(sub)\<close> for a string \<open>sub\<close>: the substring test on a string, the membership
  test on an array; any other value has no such method, and the call throws a
  \<^verbatim>\<open>TypeError\<close>, which is \<open>None\<close>.
\<close>

fun includes_js :: "jsval \<Rightarrow> string \<Rightarrow> bool option" where
  "includes_js (JStr s) sub = Some (includes_str s sub)"
| "includes_js (JArr xs) sub = Some (JStr sub \<in> set xs)"
| "includes_js v sub = None"

text \<open>
  \<^verbatim>\<open>v.slice(0, n)\<close> where \<open>v\<close> has the method: the first \<open>n\<close> characters of a string, the
  first \<open>n\<close> elements of an array.
\<close>

fun slice_js :: "nat \<Rightarrow> jsval \<Rightarrow> jsval" where
  "slice_js n (JStr s) = JStr (take n s)"
| "slice_js n (JArr xs) = JArr (take n xs)"
| "slice_js n v = v"

text \<open>\<^verbatim>\<open>a ?? d\<close> for a parsed property: absent and null give way to the string \<open>d\<close>.\<close>

fun nullish_js :: "jsval option \<Rightarrow> string \<Rightarrow> jsval" where
  "nullish_js None d = JStr d"
| "nullish_js (Some JNull) d = JStr d"
| "nullish_js (Some v) d = v"

section \<open>Constants and argument schemas (types.ts)\<close>

datatype ToolName = CLAUDE | REVIEW | PING | HELP | LIST_SESSIONS

definition DEFAULT_CLAUDE_MODEL :: string where
  "DEFAULT_CLAUDE_MODEL = ''claude-sonnet-4-6''"

text \<open>
  The argument object of the \<^verbatim>\<open>claude\<close> tool, at the field types \<^verbatim>\<open>ClaudeToolSchema\<close>
  declares. An optional field that the caller left out is \<open>None\<close>. \<open>outputFormat\<close> is the
  string the caller sent; the schema checks it against the enum.
\<close>

record ProviderEntry =
  provider_routerBaseUrl :: "string option"
  provider_model :: "string option"

record ClaudeToolArgs =
  prompt :: string
  sessionId :: "string option"
  resetSession :: "bool option"
  model :: "string option"
  workingDirectory :: "string option"
  allowedTools :: "string option"
  dangerouslySkipPermissions :: "bool option"
  outputFormat :: "string option"
  maxTurns :: "int option"
  routerBaseUrl :: "string option"
  fallbackProviders :: "ProviderEntry list option"

record ReviewToolArgs =
  review_prompt :: "string option"
  uncommitted :: "bool option"
  base :: "string option"
  commit :: "string option"
  title :: "string option"
  review_model :: "string option"
  review_workingDirectory :: "string option"

text \<open>
  A \<^verbatim>\<open>ZodError\<close> carries the paths of the fields whose checks failed, in schema order.
\<close>

datatype ZodError = ZodError "string list"

text \<open>The character class of \<^verbatim>\<open>/^[a-zA-Z0-9_-]+$/\<close>.\<close>

definition sessionIdChar :: "char \<Rightarrow> bool" where
  "sessionIdChar c =
     (c \<in> set ''abcdefghijklmnopqrstuvwxyzABCDEFGHIJKLMNOPQRSTUVWXYZ0123456789_-'')"

text \<open>
  \<^verbatim>\<open>z.string().max(256).regex(/^[a-zA-Z0-9_-]+$/)\<close>: both checks run on a supplied
  string. The pattern is anchored at both ends and has no flags, so it holds exactly of
  the non-empty strings over the class.
\<close>

definition sessionId_max :: "string \<Rightarrow> bool" where
  "sessionId_max s = (length s \<le> 256)"

definition sessionId_regex :: "string \<Rightarrow> bool" where
  "sessionId_regex s = (s \<noteq> [] \<and> list_all sessionIdChar s)"

definition sessionId_issues :: "string option \<Rightarrow> string list" where
  "sessionId_issues v =
     (case v of
        None \<Rightarrow> []
      | Some s \<Rightarrow>
          (if sessionId_max s then [] else [''sessionId''])
          @ (if sessionId_regex s then [] else [''sessionId'']))"

definition outputFormat_issues :: "string option \<Rightarrow> string list" where
  "outputFormat_issues v =
     (case v of
        None \<Rightarrow> []
      | Some f \<Rightarrow> if f \<in> set [''text'', ''json'', ''stream-json''] then [] else [''outputFormat''])"

text \<open>
  \<^verbatim>\<open>z.number().int().positive()\<close>: an integer in JavaScript's safe range, at most
  \<open>2^53 - 1\<close>, and greater than zero. A number that is not an integer is rejected the
  same way and is not representable here.
\<close>

definition maxTurns_issues :: "int option \<Rightarrow> string list" where
  "maxTurns_issues v =
     (case v of
        None \<Rightarrow> []
      | Some n \<Rightarrow>
          (if n \<le> 9007199254740991 then [] else [''maxTurns''])
          @ (if 0 < n then [] else [''maxTurns'']))"

text \<open>
  \<^verbatim>\<open>z.string().url()\<close> is zod's own check; what it accepts is the parameter \<open>is_url\<close>.
\<close>

definition url_issues :: "(string \<Rightarrow> bool) \<Rightarrow> string \<Rightarrow> string option \<Rightarrow> string list" where
  "url_issues is_url path v =
     (case v of None \<Rightarrow> [] | Some u \<Rightarrow> if is_url u then [] else [path])"

definition fallbackProviders_issues ::
  "(string \<Rightarrow> bool) \<Rightarrow> ProviderEntry list option \<Rightarrow> string list" where
  "fallbackProviders_issues is_url v =
     (case v of
        None \<Rightarrow> []
      | Some ps \<Rightarrow>
          (if length ps \<le> 5 then [] else [''fallbackProviders''])
          @ concat (map (\<lambda>p. url_issues is_url ''fallbackProviders.routerBaseUrl''
                               (provider_routerBaseUrl p)) ps))"

definition ClaudeToolSchema_issues :: "(string \<Rightarrow> bool) \<Rightarrow> ClaudeToolArgs \<Rightarrow> string list" where
  "ClaudeToolSchema_issues is_url a =
     sessionId_issues (sessionId a)
     @ outputFormat_issues (outputFormat a)
     @ maxTurns_issues (maxTurns a)
     @ url_issues is_url ''routerBaseUrl'' (routerBaseUrl a)
     @ fallbackProviders_issues is_url (fallbackProviders a)"

text \<open>\<^verbatim>\<open>ClaudeToolSchema.parse(args)\<close>: the arguments, or the \<^verbatim>\<open>ZodError\<close> it throws.\<close>

definition ClaudeToolSchema_parse ::
  "(string \<Rightarrow> bool) \<Rightarrow> ClaudeToolArgs \<Rightarrow> ZodError + ClaudeToolArgs" where
  "ClaudeToolSchema_parse is_url a =
     (case ClaudeToolSchema_issues is_url a of
        [] \<Rightarrow> Inr a
      | i # is \<Rightarrow> Inl (ZodError (i # is)))"

text \<open>
  \<^verbatim>\<open>ReviewToolSchema\<close> only declares optional strings and booleans: every argument
  object of the record's type passes.
\<close>

definition ReviewToolSchema_parse :: "ReviewToolArgs \<Rightarrow> ZodError + ReviewToolArgs" where
  "ReviewToolSchema_parse a = Inr a"

section \<open>Errors (errors.ts)\<close>

text \<open>
  Modelled from the spec: the error classes of \<^verbatim>\<open>errors.ts\<close>, which is not among the source
  files. Section 7 of the spec has the two of them, and the handlers construct each with
  the tool's name and a message. The message of a \<^verbatim>\<open>ValidationError\<close> made from a
  \<^verbatim>\<open>ZodError\<close> is zod's rendering of the issues; the model keeps the issues themselves.
  The cause a \<^verbatim>\<open>ToolExecutionError\<close> wraps is not kept.
\<close>

datatype message = Text string | Issues "string list"

datatype error = ValidationError ToolName message | ToolExecutionError ToolName string

section \<open>Session storage (session/storage.ts)\<close>

text \<open>
  A turn as the handler stores it. The response is declared a string, and is whatever
  value the handler took from the parsed output.
\<close>

record ConversationTurn =
  turn_prompt :: string
  turn_response :: jsval
  timestamp :: nat

record Session =
  ident :: string
  createdAt :: nat
  lastAccessedAt :: nat
  turns :: "ConversationTurn list"
  claudeSessionId :: "string option"

type_synonym SessionStorage = "string \<rightharpoonup> Session"

text \<open>
  Modelled from the spec: the in-memory session store of \<^verbatim>\<open>session/storage.ts\<close>, which is
  not among the source files; only its callers and tests are. Sections 3 and 4.1 of the
  spec give the session's fields and the operations. Each operation below takes the store
  and returns the new one; the clock is the argument \<open>now\<close>.
\<close>

text \<open>Modelled from the spec: a session as \<open>createSession\<close> and \<open>ensureSession\<close> insert it.\<close>

definition emptySession :: "nat \<Rightarrow> string \<Rightarrow> Session" where
  "emptySession now i =
     \<lparr>ident = i, createdAt = now, lastAccessedAt = now, turns = [], claudeSessionId = None\<rparr>"

text \<open>
  Modelled from the spec: \<open>ensureSession\<close> inserts an empty session if the id is absent,
  and otherwise only updates \<open>lastAccessedAt\<close>.
\<close>

definition ensureSession :: "nat \<Rightarrow> string \<Rightarrow> SessionStorage \<Rightarrow> SessionStorage" where
  "ensureSession now i st =
     (case st i of
        None \<Rightarrow> st(i \<mapsto> emptySession now i)
      | Some s \<Rightarrow> st(i \<mapsto> s\<lparr>lastAccessedAt := now\<rparr>))"

text \<open>
  Modelled from the spec: the store's \<^verbatim>\<open>resetSession\<close> (named \<open>resetSession_store\<close> here,
  since \<open>resetSession\<close> is the argument field) clears the turns and the native handle of
  an existing session, keeps its id and \<open>createdAt\<close>, and does nothing for an unknown id.
\<close>

definition resetSession_store :: "string \<Rightarrow> SessionStorage \<Rightarrow> SessionStorage" where
  "resetSession_store i st =
     (case st i of
        None \<Rightarrow> st
      | Some s \<Rightarrow> st(i \<mapsto> s\<lparr>turns := [], claudeSessionId := None\<rparr>))"

text \<open>
  Modelled from the spec: the native handle of a session is read and set by id; there is
  none for an unknown id, and setting it for an unknown id does nothing.
\<close>

definition getClaudeSessionId :: "SessionStorage \<Rightarrow> string \<Rightarrow> string option" where
  "getClaudeSessionId st i = (case st i of None \<Rightarrow> None | Some s \<Rightarrow> claudeSessionId s)"

definition setClaudeSessionId :: "string \<Rightarrow> string \<Rightarrow> SessionStorage \<Rightarrow> SessionStorage" where
  "setClaudeSessionId i h st =
     (case st i of None \<Rightarrow> st | Some s \<Rightarrow> st(i \<mapsto> s\<lparr>claudeSessionId := Some h\<rparr>))"

text \<open>
  Modelled from the spec: \<open>getSession\<close> is a lookup that updates \<open>lastAccessedAt\<close> on a
  hit.
\<close>

definition getSession :: "nat \<Rightarrow> string \<Rightarrow> SessionStorage \<Rightarrow> SessionStorage \<times> Session option" where
  "getSession now i st =
     (case st i of
        None \<Rightarrow> (st, None)
      | Some s \<Rightarrow> (st(i \<mapsto> s\<lparr>lastAccessedAt := now\<rparr>), Some (s\<lparr>lastAccessedAt := now\<rparr>)))"

text \<open>
  Modelled from the spec: \<open>addTurn\<close> appends the turn, creating the session first if it
  is missing, and updates \<open>lastAccessedAt\<close>.
\<close>

definition addTurn :: "nat \<Rightarrow> string \<Rightarrow> ConversationTurn \<Rightarrow> SessionStorage \<Rightarrow> SessionStorage" where
  "addTurn now i t st =
     (let s = (case st i of None \<Rightarrow> emptySession now i | Some s \<Rightarrow> s)
      in st(i \<mapsto> s\<lparr>lastAccessedAt := now, turns := turns s @ [t]\<rparr>))"

text \<open>The turns recorded for a session id; none for an unknown id.\<close>

definition turns_of :: "SessionStorage \<Rightarrow> string \<Rightarrow> ConversationTurn list" where
  "turns_of st i = (case st i of None \<Rightarrow> [] | Some s \<Rightarrow> turns s)"

section \<open>The world outside the handlers\<close>

record CommandResult =
  stdout :: string
  stderr :: string

text \<open>
  What the \<^verbatim>\<open>try\<close> block around \<^verbatim>\<open>JSON.parse(result.stdout)\<close> can see of the parsed value:
  \<open>Throws\<close> when \<^verbatim>\<open>JSON.parse\<close> raises a \<^verbatim>\<open>SyntaxError\<close> (or the value is \<^verbatim>\<open>null\<close>, whose
  property access raises inside the same block); otherwise the \<^verbatim>\<open>result\<close> and
  \<^verbatim>\<open>session_id\<close> properties of the value, \<open>None\<close> for a property that is absent.
  \<^verbatim>\<open>result\<close> is any JSON value. \<^verbatim>\<open>session_id\<close> is taken at the type the handler declares
  for the native handle, a string, with null as absent.
\<close>

datatype Parsed = Throws | Value (result: "jsval option") (session_id: "string option")

datatype ProgressToken = TokenString string | TokenNumber int

fun truthy_token :: "ProgressToken option \<Rightarrow> bool" where
  "truthy_token None = False"
| "truthy_token (Some (TokenString s)) = (s \<noteq> [])"
| "truthy_token (Some (TokenNumber n)) = (n \<noteq> 0)"

text \<open>
  Everything a call reads that is not its arguments or the store: the two environment
  variables, zod's URL check, the subprocess runners of \<^verbatim>\<open>utils/command.ts\<close> (not among
  the source files, so they are parameters; \<open>None\<close> when the promise rejects; the
  arguments are the argument list and the environment override),
  the built-in \<^verbatim>\<open>JSON.parse\<close>, the clock, and the progress token of the handler context.
  \<^verbatim>\<open>sendProgress\<close> only notifies the client and is left out.
\<close>

record World =
  env_CLAUDE_DEFAULT_MODEL :: "string option"
  env_STRUCTURED_CONTENT_ENABLED :: "string option"
  is_url :: "string \<Rightarrow> bool"
  executeCommand :: "string list \<Rightarrow> string option \<Rightarrow> CommandResult option"
  executeCommandStreaming :: "string list \<Rightarrow> string option \<Rightarrow> CommandResult option"
  JSON_parse :: "string \<Rightarrow> Parsed"
  now :: nat
  progressToken :: "ProgressToken option"

record Metadata =
  meta_model :: "string option"
  meta_sessionId :: "string option"
  meta_base :: "string option"
  meta_commit :: "string option"

record ToolResult =
  content_text :: jsval
  content_meta :: Metadata
  structuredContent :: "Metadata option"

text \<open>
  One subprocess call, always of the \<^verbatim>\<open>claude\<close> binary: which runner, the argument list,
  the environment override.
\<close>

record Invocation =
  streaming :: bool
  cmdArgs :: "string list"
  envOverride :: "string option"

text \<open>
  What a call leaves behind: the store, the subprocess calls it made, and what it
  returned or threw.
\<close>

record Outcome =
  storage :: SessionStorage
  spawned :: "Invocation list"
  returned :: "error + ToolResult"

section \<open>The claude tool (tools/handlers.ts, ClaudeToolHandler)\<close>

text \<open>
  \<^verbatim>\<open>isStructuredContentEnabled\<close>: the variable is set, not empty, and one of the four
  words once lowered.
\<close>

definition isStructuredContentEnabled :: "World \<Rightarrow> bool" where
  "isStructuredContentEnabled w =
     (case env_STRUCTURED_CONTENT_ENABLED w of
        None \<Rightarrow> False
      | Some raw \<Rightarrow>
          if raw = [] then False
          else toLowerCase raw \<in> set [''1'', ''true'', ''yes'', ''on''])"

text \<open>
  The line one earlier turn contributes to the synthesized context (lines 223 to 232), or
  \<open>None\<close> when \<^verbatim>\<open>turn.response.includes\<close> throws. The second \<^verbatim>\<open>includes\<close> is only reached
  when the first is false, and both are defined for the same values.
\<close>

definition contextLine :: "ConversationTurn \<Rightarrow> string option" where
  "contextLine turn =
     (case includes_js (turn_response turn) ''function'' of
        None \<Rightarrow> None
      | Some isFunction \<Rightarrow>
          (case includes_js (turn_response turn) ''def '' of
             None \<Rightarrow> None
           | Some isDef \<Rightarrow>
               if isFunction \<or> isDef
               then Some (''Previous code context: ''
                          @ toString_js (slice_js 200 (turn_response turn)) @ ''...'')
               else Some (''Context: '' @ turn_prompt turn @ '' -> ''
                          @ toString_js (slice_js 100 (turn_response turn)) @ ''...'')))"

text \<open>\<^verbatim>\<open>turns.slice(-2)\<close>: the last two elements, or all of them when there are fewer.\<close>

definition recentTurns :: "ConversationTurn list \<Rightarrow> ConversationTurn list" where
  "recentTurns ts = drop (length ts - 2) ts"

text \<open>
  \<^verbatim>\<open>buildEnhancedPrompt\<close>: the synthesized prompt, or \<open>None\<close> when the line of one of the
  recent turns throws.
\<close>

definition buildEnhancedPrompt :: "ConversationTurn list \<Rightarrow> string \<Rightarrow> string option" where
  "buildEnhancedPrompt ts newPrompt =
     (if length ts = 0 then Some newPrompt
      else
        (case those (map contextLine (recentTurns ts)) of
           None \<Rightarrow> None
         | Some contextLines \<Rightarrow>
             let contextualInfo = join [CHR 0x0A] contextLines
             in Some (contextualInfo @ [CHR 0x0A, CHR 0x0A] @ ''Task: '' @ newPrompt)))"

text \<open>The turn's response is a string, as the handler declares it.\<close>

definition stringResponse :: "ConversationTurn \<Rightarrow> bool" where
  "stringResponse turn = (case turn_response turn of JStr r \<Rightarrow> True | _ \<Rightarrow> False)"

text \<open>Lines 65 to 68: ensure the session, then reset it when the call asks for it.\<close>

definition ensureAndReset :: "World \<Rightarrow> ClaudeToolArgs \<Rightarrow> string \<Rightarrow> SessionStorage \<Rightarrow> SessionStorage" where
  "ensureAndReset w a i st =
     (let st1 = ensureSession (now w) i st
      in if truthy_bool (resetSession a) then resetSession_store i st1 else st1)"

text \<open>
  Lines 57 to 85 of \<^verbatim>\<open>execute\<close>: with a session id, ensure and reset the session, read
  the native handle, and either resume or, when the session has turns, synthesize the
  prompt. The result is the store, \<open>useResume\<close>, \<open>claudeSessionId\<close> and \<open>enhancedPrompt\<close>;
  the last is \<open>None\<close> when \<^verbatim>\<open>buildEnhancedPrompt\<close> throws, which the store outlives.
\<close>

definition prepareSession ::
  "World \<Rightarrow> ClaudeToolArgs \<Rightarrow> SessionStorage
     \<Rightarrow> SessionStorage \<times> bool \<times> string option \<times> string option" where
  "prepareSession w a st =
     (case sessionId a of
        None \<Rightarrow> (st, False, None, Some (prompt a))
      | Some i \<Rightarrow>
          if i = [] then (st, False, None, Some (prompt a))
          else
            let st2 = ensureAndReset w a i st;
                h = getClaudeSessionId st2 i
            in if truthy h then (st2, True, h, Some (prompt a))
               else
                 (case getSession (now w) i st2 of
                    (st3, None) \<Rightarrow> (st3, False, h, Some (prompt a))
                  | (st3, Some session) \<Rightarrow>
                      (st3, False, h,
                       if length (turns session) > 0
                       then buildEnhancedPrompt (turns session) (prompt a)
                       else Some (prompt a))))"

text \<open>
  The branch taken at \<^verbatim>\<open>if (useResume && claudeSessionId)\<close>, and the prompt that goes to
  the subprocess; there is none when synthesizing it throws.
\<close>

definition resumeMode :: "World \<Rightarrow> ClaudeToolArgs \<Rightarrow> SessionStorage \<Rightarrow> bool" where
  "resumeMode w a st =
     (case prepareSession w a st of (st1, useResume, h, enhancedPrompt) \<Rightarrow> useResume \<and> truthy h)"

definition sentPrompt :: "World \<Rightarrow> ClaudeToolArgs \<Rightarrow> SessionStorage \<Rightarrow> string option" where
  "sentPrompt w a st =
     (case prepareSession w a st of (st1, useResume, h, enhancedPrompt) \<Rightarrow> enhancedPrompt)"

text \<open>Lines 88 to 91: \<^verbatim>\<open>model || process.env[CLAUDE_DEFAULT_MODEL] || DEFAULT_CLAUDE_MODEL\<close>.\<close>

definition selectedModel :: "World \<Rightarrow> string option \<Rightarrow> string" where
  "selectedModel w m = or_else m (or_else (env_CLAUDE_DEFAULT_MODEL w) DEFAULT_CLAUDE_MODEL)"

text \<open>\<^verbatim>\<open>if (v) cmdArgs.push(name, v)\<close> for an optional string.\<close>

fun flag :: "string \<Rightarrow> string option \<Rightarrow> string list" where
  "flag name None = []"
| "flag name (Some v) = (if v = [] then [] else [name, v])"

text \<open>\<^verbatim>\<open>if (maxTurns) cmdArgs.push('--max-turns', String(maxTurns))\<close>: zero is falsy.\<close>

fun maxTurnsFlag :: "int option \<Rightarrow> string list" where
  "maxTurnsFlag None = []"
| "maxTurnsFlag (Some n) = (if n = 0 then [] else [''--max-turns'', String_int n])"

text \<open>Lines 97 to 105 and 108 to 125: the two argument lists, pushed in this order.\<close>

definition resumeArgs :: "string \<Rightarrow> string \<Rightarrow> string \<Rightarrow> ClaudeToolArgs \<Rightarrow> string list" where
  "resumeArgs enhancedPrompt h m a =
     [''-p'', enhancedPrompt, ''--resume'', h, ''--model'', m]
     @ [''--output-format'', or_else (outputFormat a) ''json'']
     @ flag ''--cwd'' (workingDirectory a)"

definition freshArgs :: "string \<Rightarrow> string \<Rightarrow> ClaudeToolArgs \<Rightarrow> string list" where
  "freshArgs enhancedPrompt m a =
     [''-p'', enhancedPrompt, ''--model'', m]
     @ [''--output-format'', or_else (outputFormat a) ''json'']
     @ maxTurnsFlag (maxTurns a)
     @ (if truthy_bool (dangerouslySkipPermissions a) then [''--dangerously-skip-permissions''] else [])
     @ flag ''--allowedTools'' (allowedTools a)
     @ flag ''--cwd'' (workingDirectory a)"

text \<open>Lines 93 to 126: \<^verbatim>\<open>if (useResume && claudeSessionId)\<close> picks the resume list.\<close>

definition buildCmdArgs ::
  "bool \<Rightarrow> string option \<Rightarrow> string \<Rightarrow> string \<Rightarrow> ClaudeToolArgs \<Rightarrow> string list" where
  "buildCmdArgs useResume h enhancedPrompt m a =
     (case h of
        None \<Rightarrow> freshArgs enhancedPrompt m a
      | Some hv \<Rightarrow>
          if useResume \<and> hv \<noteq> [] then resumeArgs enhancedPrompt hv m a
          else freshArgs enhancedPrompt m a)"

text \<open>
  Lines 131 to 147: the streaming runner when the context has a progress token, the
  buffered one otherwise; \<^verbatim>\<open>routerBaseUrl\<close>, when truthy, is the environment override.
\<close>

definition invocation :: "World \<Rightarrow> ClaudeToolArgs \<Rightarrow> string list \<Rightarrow> Invocation" where
  "invocation w a args =
     \<lparr>streaming = truthy_token (progressToken w), cmdArgs = args,
      envOverride = (if truthy (routerBaseUrl a) then routerBaseUrl a else None)\<rparr>"

definition runCommand :: "World \<Rightarrow> Invocation \<Rightarrow> CommandResult option" where
  "runCommand w call =
     (if streaming call then executeCommandStreaming w (cmdArgs call) (envOverride call)
      else executeCommand w (cmdArgs call) (envOverride call))"

text \<open>
  Lines 150 to 158: the response and the extracted native handle. The response is
  \<^verbatim>\<open>parsed.result ?? result.stdout\<close>, whatever value \<^verbatim>\<open>result\<close> is. A failed parse is caught
  and falls back to \<^verbatim>\<open>stdout || stderr || placeholder\<close>.
\<close>

definition parseOutput :: "World \<Rightarrow> string \<Rightarrow> CommandResult \<Rightarrow> jsval \<times> string option" where
  "parseOutput w placeholder r =
     (case JSON_parse w (stdout r) of
        Value res sid \<Rightarrow> (nullish_js res (stdout r), sid)
      | Throws \<Rightarrow>
          (JStr (or_else (Some (stdout r)) (or_else (Some (stderr r)) placeholder)), None))"

text \<open>
  Lines 160 to 176: in a session and not resuming, a truthy extracted handle is stored;
  in a session, the turn is appended with the caller's \<open>prompt\<close>.
\<close>

definition persist ::
  "World \<Rightarrow> ClaudeToolArgs \<Rightarrow> bool \<Rightarrow> jsval \<Rightarrow> string option \<Rightarrow> SessionStorage \<Rightarrow> SessionStorage" where
  "persist w a useResume response extracted st =
     (case sessionId a of
        None \<Rightarrow> st
      | Some i \<Rightarrow>
          if i = [] then st
          else
            let st1 = (case extracted of
                         None \<Rightarrow> st
                       | Some e \<Rightarrow> if \<not> useResume \<and> e \<noteq> [] then setClaudeSessionId i e st else st)
            in addTurn (now w) i
                 \<lparr>turn_prompt = prompt a, turn_response = response, timestamp = now w\<rparr> st1)"

text \<open>
  Lines 181 to 198: the metadata has the model and the session id when they are truthy;
  it is also the structured content when that is enabled and the metadata has a key.
\<close>

definition claudeMetadata :: "string \<Rightarrow> string option \<Rightarrow> Metadata" where
  "claudeMetadata m activeSessionId =
     \<lparr>meta_model = (if m = [] then None else Some m),
      meta_sessionId = (if truthy activeSessionId then activeSessionId else None),
      meta_base = None, meta_commit = None\<rparr>"

definition claudeResult :: "World \<Rightarrow> jsval \<Rightarrow> Metadata \<Rightarrow> ToolResult" where
  "claudeResult w response md =
     \<lparr>content_text = response, content_meta = md,
      structuredContent =
        (if isStructuredContentEnabled w \<and> (meta_model md \<noteq> None \<or> meta_sessionId md \<noteq> None)
         then Some md else None)\<rparr>"

text \<open>
  \<^verbatim>\<open>ClaudeToolHandler.execute\<close>. A \<^verbatim>\<open>ZodError\<close> becomes a \<^verbatim>\<open>ValidationError\<close>. A throw
  while the prompt is synthesized, before any subprocess call, and a rejected subprocess
  call both become a \<^verbatim>\<open>ToolExecutionError\<close>, after the store was prepared.
\<close>

definition ClaudeToolHandler_execute :: "World \<Rightarrow> ClaudeToolArgs \<Rightarrow> SessionStorage \<Rightarrow> Outcome" where
  "ClaudeToolHandler_execute w args st =
     (case ClaudeToolSchema_parse (is_url w) args of
        Inl (ZodError is) \<Rightarrow>
          \<lparr>storage = st, spawned = [], returned = Inl (ValidationError CLAUDE (Issues is))\<rparr>
      | Inr a \<Rightarrow>
          (case prepareSession w a st of
             (st1, useResume, h, None) \<Rightarrow>
               \<lparr>storage = st1, spawned = [],
                returned = Inl (ToolExecutionError CLAUDE ''Failed to execute claude command'')\<rparr>
           | (st1, useResume, h, Some enhancedPrompt) \<Rightarrow>
               let m = selectedModel w (model a);
                   call = invocation w a (buildCmdArgs useResume h enhancedPrompt m a)
               in (case runCommand w call of
                     None \<Rightarrow>
                       \<lparr>storage = st1, spawned = [call],
                        returned = Inl (ToolExecutionError CLAUDE ''Failed to execute claude command'')\<rparr>
                   | Some r \<Rightarrow>
                       (case parseOutput w ''No output from Claude'' r of
                          (response, extracted) \<Rightarrow>
                            \<lparr>storage = persist w a useResume response extracted st1,
                             spawned = [call],
                             returned = Inr (claudeResult w response
                                              (claudeMetadata m (sessionId a)))\<rparr>))))"

section \<open>The review tool (tools/handlers.ts, ReviewToolHandler)\<close>

definition reviewContext :: "ReviewToolArgs \<Rightarrow> string list" where
  "reviewContext a =
     (if truthy_bool (uncommitted a)
      then [''Review staged, unstaged, and untracked changes (working tree diff).''] else [])
     @ (case base a of
          None \<Rightarrow> []
        | Some b \<Rightarrow> if b = [] then [] else [''Review changes against base branch: '' @ b @ ''.''])
     @ (case commit a of
          None \<Rightarrow> []
        | Some c \<Rightarrow> if c = [] then [] else [''Review changes introduced by commit: '' @ c @ ''.''])
     @ (case title a of
          None \<Rightarrow> []
        | Some t \<Rightarrow> if t = [] then [] else [''Review title: '' @ t @ ''.''])"

definition reviewPrompt :: "ReviewToolArgs \<Rightarrow> string" where
  "reviewPrompt a =
     (case review_prompt a of
        Some p \<Rightarrow>
          if p \<noteq> [] then join '' '' (reviewContext a) @ '' '' @ p
          else if length (reviewContext a) > 0
          then join '' '' (reviewContext a) @ '' Please provide a detailed code review.''
          else ''Please review the current code changes and provide feedback.''
      | None \<Rightarrow>
          if length (reviewContext a) > 0
          then join '' '' (reviewContext a) @ '' Please provide a detailed code review.''
          else ''Please review the current code changes and provide feedback.'')"

definition reviewArgs :: "World \<Rightarrow> ReviewToolArgs \<Rightarrow> string list" where
  "reviewArgs w a =
     [''-p'', reviewPrompt a, ''--model'', selectedModel w (review_model a),
      ''--output-format'', ''json'']
     @ flag ''--cwd'' (review_workingDirectory a)"

definition reviewMetadata :: "string \<Rightarrow> ReviewToolArgs \<Rightarrow> Metadata" where
  "reviewMetadata m a =
     \<lparr>meta_model = Some m, meta_sessionId = None,
      meta_base = (if truthy (base a) then base a else None),
      meta_commit = (if truthy (commit a) then commit a else None)\<rparr>"

text \<open>
  \<^verbatim>\<open>ReviewToolHandler.execute\<close>: the subprocess calls it made and what it returned or
  threw. It has no session store.
\<close>

definition ReviewToolHandler_execute ::
  "World \<Rightarrow> ReviewToolArgs \<Rightarrow> Invocation list \<times> (error + ToolResult)" where
  "ReviewToolHandler_execute w args =
     (case ReviewToolSchema_parse args of
        Inl (ZodError is) \<Rightarrow> ([], Inl (ValidationError REVIEW (Issues is)))
      | Inr a \<Rightarrow>
          if truthy (review_prompt a) \<and> truthy_bool (uncommitted a)
          then ([], Inl (ValidationError REVIEW (Text
                 ''The review prompt cannot be combined with uncommitted=true. Use a base/commit review or omit the prompt.'')))
          else
            let m = selectedModel w (review_model a);
                call = \<lparr>streaming = truthy_token (progressToken w), cmdArgs = reviewArgs w a,
                       envOverride = None\<rparr>
            in (case runCommand w call of
                  None \<Rightarrow> ([call], Inl (ToolExecutionError REVIEW ''Failed to execute claude review''))
                | Some r \<Rightarrow>
                    (case parseOutput w ''No review output from Claude'' r of
                       (response, extracted) \<Rightarrow>
                         ([call],
                          Inr \<lparr>content_text = response, content_meta = reviewMetadata m a,
                               structuredContent =
                                 (if isStructuredContentEnabled w then Some (reviewMetadata m a)
                                  else None)\<rparr>))))"

section \<open>The handler registry and test fixtures\<close>

text \<open>
  Lines 444 to 452: the registry creates one empty store, and only the claude handler
  writes to it. \<open>serve\<close> is the store after a sequence of calls, each in its own world.
\<close>

fun serve :: "(World \<times> ClaudeToolArgs) list \<Rightarrow> SessionStorage \<Rightarrow> SessionStorage" where
  "serve [] st = st"
| "serve ((w, a) # cs) st = serve cs (storage (ClaudeToolHandler_execute w a st))"

text \<open>No session of the store holds the empty string as its native handle.\<close>

definition nonempty_handles :: "SessionStorage \<Rightarrow> bool" where
  "nonempty_handles st = (\<forall>i s. st i = Some s \<longrightarrow> claudeSessionId s \<noteq> Some [])"

text \<open>
  The fixtures of the test suites: a subprocess that always resolves with one result,
  a \<^verbatim>\<open>JSON.parse\<close> that knows the outputs the tests mock, and argument objects with only
  the prompt, or the prompt and a session id, set.
\<close>

definition mockParse :: "string \<Rightarrow> Parsed" where
  \<open>mockParse s =
     (if s = ''{"result":"Test response","session_id":"abc-123-def"}''
      then Value (Some (JStr ''Test response'')) (Some ''abc-123-def'')
      else if s = ''{"result":"Response"}'' then Value (Some (JStr ''Response'')) None
      else if s = ''{"result":"X","session_id":"Y"}'' then Value (Some (JStr ''X'')) (Some ''Y'')
      else if s = ''{"result":"X","session_id":""}'' then Value (Some (JStr ''X'')) (Some [])
      else Throws)\<close>

definition mockResolved :: "CommandResult \<Rightarrow> string list \<Rightarrow> string option \<Rightarrow> CommandResult option" where
  "mockResolved r args env = Some r"

definition mockWorld :: "string option \<Rightarrow> CommandResult \<Rightarrow> World" where
  "mockWorld envModel r =
     \<lparr>env_CLAUDE_DEFAULT_MODEL = envModel, env_STRUCTURED_CONTENT_ENABLED = Some ''1'',
      is_url = (\<lambda>u. True), executeCommand = mockResolved r,
      executeCommandStreaming = mockResolved r, JSON_parse = mockParse, now = 7,
      progressToken = None\<rparr>"

definition promptOnly :: "string \<Rightarrow> ClaudeToolArgs" where
  "promptOnly p =
     \<lparr>prompt = p, sessionId = None, resetSession = None, model = None,
      workingDirectory = None, allowedTools = None, dangerouslySkipPermissions = None,
      outputFormat = None, maxTurns = None, routerBaseUrl = None, fallbackProviders = None\<rparr>"

definition inSession :: "string \<Rightarrow> string \<Rightarrow> ClaudeToolArgs" where
  "inSession i p = (promptOnly p)\<lparr>sessionId := Some i\<rparr>"

definition reviewOf :: "string option \<Rightarrow> bool option \<Rightarrow> ReviewToolArgs" where
  "reviewOf p u =
     \<lparr>review_prompt = p, uncommitted = u, base = None, commit = None, title = None,
      review_model = None, review_workingDirectory = None\<rparr>"

text \<open>A store with one session that holds the given turns and native handle.\<close>

definition storeWith :: "string \<Rightarrow> ConversationTurn list \<Rightarrow> string option \<Rightarrow> SessionStorage" where
  "storeWith i ts h =
     Map.empty(i \<mapsto> \<lparr>ident = i, createdAt = 1, lastAccessedAt = 1, turns = ts, claudeSessionId = h\<rparr>)"

text \<open>A resuming call that sets every optional field of the command line.\<close>

definition resumeWithOptions :: ClaudeToolArgs where
  "resumeWithOptions =
     (inSession ''s1'' ''Use different model'')
       \<lparr>model := Some ''claude-opus-4-6'', workingDirectory := Some ''/repo'',
        allowedTools := Some ''Bash,Read,Write'', dangerouslySkipPermissions := Some True,
        outputFormat := Some ''text'', maxTurns := Some 5\<rparr>"

text \<open>
  A subprocess whose JSON output has a \<^verbatim>\<open>result\<close> that is not a string: an array holding
  one text of \<open>n\<close> characters, and a number.
\<close>

definition longText :: "nat \<Rightarrow> string" where
  "longText n = replicate n (CHR ''x'')"

definition resultWorld :: "jsval \<Rightarrow> string \<Rightarrow> World" where
  "resultWorld v out =
     \<lparr>env_CLAUDE_DEFAULT_MODEL = None, env_STRUCTURED_CONTENT_ENABLED = None,
      is_url = (\<lambda>u. True), executeCommand = mockResolved \<lparr>stdout = out, stderr = []\<rparr>,
      executeCommandStreaming = mockResolved \<lparr>stdout = out, stderr = []\<rparr>,
      JSON_parse = (\<lambda>s. if s = out then Value (Some v) None else Throws), now = 7,
      progressToken = None\<rparr>"

definition arrayWorld :: "nat \<Rightarrow> World" where
  \<open>arrayWorld n = resultWorld (JArr [JStr (longText n)]) (''{"result":["'' @ longText n @ ''"]}'')\<close>

definition numberWorld :: World where
  \<open>numberWorld = resultWorld (JNum ''42'') ''{"result":42}''\<close>

section \<open>Validation\<close>

lemma parse_Inr: "ClaudeToolSchema_parse u a = Inr b \<Longrightarrow> b = a \<and> ClaudeToolSchema_issues u a = []"
  by (auto simp: ClaudeToolSchema_parse_def split: list.splits)

lemma parse_Inl: "ClaudeToolSchema_parse u a = Inl e \<Longrightarrow> e = ZodError (ClaudeToolSchema_issues u a) \<and> ClaudeToolSchema_issues u a \<noteq> []"
  by (auto simp: ClaudeToolSchema_parse_def split: list.splits)

lemma issues_sessionId:
  "ClaudeToolSchema_issues u a = [] \<Longrightarrow> sessionId a = Some i \<Longrightarrow> length i \<le> 256 \<and> i \<noteq> [] \<and> list_all sessionIdChar i"
  by (auto simp: ClaudeToolSchema_issues_def sessionId_issues_def sessionId_max_def sessionId_regex_def split: if_splits)

lemma parsed_sessionId_nonempty:
  "ClaudeToolSchema_parse u a = Inr b \<Longrightarrow> sessionId a = Some i \<Longrightarrow> i \<noteq> []"
  using parse_Inr issues_sessionId by blast

lemma parsed_outputFormat:
  "ClaudeToolSchema_parse u a = Inr b \<Longrightarrow> or_else (outputFormat a) ''json'' = (case outputFormat a of None \<Rightarrow> ''json'' | Some f \<Rightarrow> f)"
  by (auto dest!: parse_Inr simp: ClaudeToolSchema_issues_def outputFormat_issues_def split: option.splits if_splits)

lemma sessionIdChar_set:
  "list_all sessionIdChar s = (set s \<subseteq> set ''abcdefghijklmnopqrstuvwxyzABCDEFGHIJKLMNOPQRSTUVWXYZ0123456789_-'')"
  unfolding list_all_iff sessionIdChar_def by blast

lemma sessionId_issues_empty:
  "(sessionId_issues (Some s) = []) =
     (length s \<le> 256 \<and> s \<noteq> []
      \<and> set s \<subseteq> set ''abcdefghijklmnopqrstuvwxyzABCDEFGHIJKLMNOPQRSTUVWXYZ0123456789_-'')"
  unfolding sessionId_issues_def sessionId_max_def sessionId_regex_def sessionIdChar_set
  by auto

section \<open>Session preparation\<close>

lemma prepareSession_session:
  "sessionId a = Some i \<Longrightarrow> i \<noteq> [] \<Longrightarrow>
   prepareSession w a st =
     (let st2 = ensureAndReset w a i st; h = getClaudeSessionId st2 i
      in if truthy h then (st2, True, h, Some (prompt a))
         else (fst (getSession (now w) i st2), False, h,
               if turns_of st2 i \<noteq> [] then buildEnhancedPrompt (turns_of st2 i) (prompt a)
               else Some (prompt a)))"
  by (auto simp: prepareSession_def Let_def getSession_def turns_of_def split: option.splits prod.splits)

lemma prepareSession_no_session:
  "sessionId a = None \<Longrightarrow> prepareSession w a st = (st, False, None, Some (prompt a))"
  by (simp add: prepareSession_def)

lemma resumeMode_session:
  "sessionId a = Some i \<Longrightarrow> i \<noteq> [] \<Longrightarrow>
   resumeMode w a st = truthy (getClaudeSessionId (ensureAndReset w a i st) i)"
  by (simp add: resumeMode_def prepareSession_session Let_def)

lemma useResume_resumeMode:
  "fst (snd (prepareSession w a st)) = resumeMode w a st"
  by (auto simp: resumeMode_def prepareSession_def Let_def split: option.splits prod.splits)

lemma handle_ensureAndReset:
  "getClaudeSessionId (ensureAndReset w a i st) i =
     (if truthy_bool (resetSession a) then None else getClaudeSessionId st i)"
  by (auto simp: getClaudeSessionId_def ensureAndReset_def Let_def ensureSession_def resetSession_store_def emptySession_def
      split: option.splits)

lemma turns_of_ensureAndReset:
  "turns_of (ensureAndReset w a i st) i = (if truthy_bool (resetSession a) then [] else turns_of st i)"
  by (auto simp: turns_of_def ensureAndReset_def Let_def ensureSession_def resetSession_store_def emptySession_def
      split: option.splits)

lemma ensureAndReset_other: "j \<noteq> i \<Longrightarrow> ensureAndReset w a i st j = st j"
  by (auto simp: ensureAndReset_def Let_def ensureSession_def resetSession_store_def split: option.splits)

lemma ensureAndReset_exists: "ensureAndReset w a i st i \<noteq> None"
  by (auto simp: ensureAndReset_def Let_def ensureSession_def resetSession_store_def split: option.splits)

lemma prepared_turns:
  "sessionId a = Some i \<Longrightarrow> i \<noteq> [] \<Longrightarrow>
   turns_of (fst (prepareSession w a st)) i = turns_of (ensureAndReset w a i st) i"
  by (auto simp: prepareSession_session Let_def getSession_def turns_of_def split: option.splits)

lemma prepared_handle:
  "sessionId a = Some i \<Longrightarrow> i \<noteq> [] \<Longrightarrow>
   getClaudeSessionId (fst (prepareSession w a st)) i = getClaudeSessionId (ensureAndReset w a i st) i"
  by (auto simp: prepareSession_session Let_def getSession_def getClaudeSessionId_def split: option.splits)

lemma prepared_other:
  "sessionId a = Some i \<Longrightarrow> i \<noteq> [] \<Longrightarrow> j \<noteq> i \<Longrightarrow> fst (prepareSession w a st) j = st j"
  by (auto simp: prepareSession_session Let_def getSession_def ensureAndReset_other split: option.splits)

lemma prepared_exists:
  "sessionId a = Some i \<Longrightarrow> i \<noteq> [] \<Longrightarrow> fst (prepareSession w a st) i \<noteq> None"
  using ensureAndReset_exists[of w a i st]
  by (auto simp: prepareSession_session Let_def getSession_def split: option.splits)

lemma sentPrompt_fresh:
  assumes "ClaudeToolSchema_parse (is_url w) a = Inr a" "\<not> resumeMode w a st"
  shows "sentPrompt w a st =
     (case sessionId a of
        None \<Rightarrow> Some (prompt a)
      | Some i \<Rightarrow>
          if turns_of (ensureAndReset w a i st) i = [] then Some (prompt a)
          else buildEnhancedPrompt (turns_of (ensureAndReset w a i st) i) (prompt a))"
proof (cases "sessionId a")
  case None
  then show ?thesis by (simp add: sentPrompt_def prepareSession_no_session)
next
  case (Some i)
  then have ne: "i \<noteq> []" using assms parsed_sessionId_nonempty by blast
  from assms(2) have "\<not> truthy (getClaudeSessionId (ensureAndReset w a i st) i)"
    by (simp add: resumeMode_session[OF Some ne])
  then show ?thesis
    using Some ne by (simp add: sentPrompt_def prepareSession_session Let_def)
qed

section \<open>The subprocess call, and what is persisted after it\<close>

lemma spawned_valid:
  assumes "ClaudeToolSchema_parse (is_url w) a = Inr a"
  shows "map cmdArgs (spawned (ClaudeToolHandler_execute w a st)) =
           (case prepareSession w a st of
              (st1, useResume, h, None) \<Rightarrow> []
            | (st1, useResume, h, Some p) \<Rightarrow>
                [buildCmdArgs useResume h p (selectedModel w (model a)) a])"
  using assms
  by (auto simp: ClaudeToolHandler_execute_def Let_def invocation_def split: prod.splits option.splits)

lemma spawned_session:
  assumes "ClaudeToolSchema_parse (is_url w) a = Inr a" "sessionId a = Some i"
  shows "map cmdArgs (spawned (ClaudeToolHandler_execute w a st)) =
           (case getClaudeSessionId (ensureAndReset w a i st) i of
              None \<Rightarrow>
                (case sentPrompt w a st of
                   None \<Rightarrow> []
                 | Some p \<Rightarrow> [freshArgs p (selectedModel w (model a)) a])
            | Some h \<Rightarrow>
                if h \<noteq> [] then [resumeArgs (prompt a) h (selectedModel w (model a)) a]
                else (case sentPrompt w a st of
                        None \<Rightarrow> []
                      | Some p \<Rightarrow> [freshArgs p (selectedModel w (model a)) a]))"
proof -
  have ne: "i \<noteq> []" using assms parsed_sessionId_nonempty by blast
  show ?thesis
    using assms(2) ne
    by (simp add: spawned_valid[OF assms(1)] sentPrompt_def prepareSession_session Let_def buildCmdArgs_def
          split: option.splits)
qed

lemma spawned_fresh:
  assumes "ClaudeToolSchema_parse (is_url w) a = Inr a" "\<not> resumeMode w a st"
  shows "map cmdArgs (spawned (ClaudeToolHandler_execute w a st)) =
           (case sentPrompt w a st of
              None \<Rightarrow> []
            | Some p \<Rightarrow> [freshArgs p (selectedModel w (model a)) a])"
  using assms(2)
  by (auto simp: spawned_valid[OF assms(1)] resumeMode_def sentPrompt_def buildCmdArgs_def
      split: prod.splits option.splits)

lemma spawned_resume:
  assumes "ClaudeToolSchema_parse (is_url w) a = Inr a" "resumeMode w a st"
  shows "\<exists>i h. sessionId a = Some i \<and> getClaudeSessionId (ensureAndReset w a i st) i = Some h \<and> h \<noteq> [] \<and>
           map cmdArgs (spawned (ClaudeToolHandler_execute w a st)) =
           [resumeArgs (prompt a) h (selectedModel w (model a)) a]"
proof (cases "sessionId a")
  case None
  with assms(2) show ?thesis by (simp add: resumeMode_def prepareSession_no_session)
next
  case (Some i)
  then have ne: "i \<noteq> []" using assms parsed_sessionId_nonempty by blast
  from assms(2) have t: "truthy (getClaudeSessionId (ensureAndReset w a i st) i)"
    by (simp add: resumeMode_session[OF Some ne])
  then obtain h where h: "getClaudeSessionId (ensureAndReset w a i st) i = Some h" "h \<noteq> []"
    by (cases "getClaudeSessionId (ensureAndReset w a i st) i") auto
  then show ?thesis
    using Some by (simp add: spawned_session[OF assms(1) Some])
qed

lemma execute_resolved_parts:
  assumes "ClaudeToolSchema_parse (is_url w) a = Inr a"
    and "map (runCommand w) (spawned (ClaudeToolHandler_execute w a st)) = [Some r]"
  shows "storage (ClaudeToolHandler_execute w a st) =
           persist w a (resumeMode w a st) (fst (parseOutput w ''No output from Claude'' r))
             (snd (parseOutput w ''No output from Claude'' r)) (fst (prepareSession w a st))"
    and "returned (ClaudeToolHandler_execute w a st) =
           Inr (claudeResult w (fst (parseOutput w ''No output from Claude'' r))
                  (claudeMetadata (selectedModel w (model a)) (sessionId a)))"
  using assms useResume_resumeMode[of w a st]
  by (auto simp: ClaudeToolHandler_execute_def Let_def split: prod.splits option.splits)

lemma persist_no_session: "sessionId a = None \<Longrightarrow> persist w a u resp e st = st"
  by (simp add: persist_def)

lemma persist_turns:
  "sessionId a = Some i \<Longrightarrow> i \<noteq> [] \<Longrightarrow>
   turns_of (persist w a u resp e st) i =
     turns_of st i @ [\<lparr>turn_prompt = prompt a, turn_response = resp, timestamp = now w\<rparr>]"
  by (auto simp: persist_def Let_def addTurn_def setClaudeSessionId_def turns_of_def emptySession_def
      split: option.splits)

lemma persist_handle:
  "sessionId a = Some i \<Longrightarrow> i \<noteq> [] \<Longrightarrow> st i \<noteq> None \<Longrightarrow>
   getClaudeSessionId (persist w a u resp e st) i =
     (case e of
        None \<Rightarrow> getClaudeSessionId st i
      | Some y \<Rightarrow> if \<not> u \<and> y \<noteq> [] then Some y else getClaudeSessionId st i)"
  by (auto simp: persist_def Let_def addTurn_def setClaudeSessionId_def getClaudeSessionId_def
      split: option.splits)

lemma persist_other:
  "sessionId a = Some i \<Longrightarrow> j \<noteq> i \<Longrightarrow> persist w a u resp e st j = st j"
  by (auto simp: persist_def Let_def addTurn_def setClaudeSessionId_def split: option.splits)

section \<open>The store never holds an empty native handle\<close>

lemma ensureSession_handles: "nonempty_handles st \<Longrightarrow> nonempty_handles (ensureSession n i st)"
  by (auto simp: nonempty_handles_def ensureSession_def emptySession_def split: option.splits if_splits)

lemma resetSession_handles: "nonempty_handles st \<Longrightarrow> nonempty_handles (resetSession_store i st)"
  by (auto simp: nonempty_handles_def resetSession_store_def split: option.splits if_splits)

lemma ensureAndReset_handles: "nonempty_handles st \<Longrightarrow> nonempty_handles (ensureAndReset w a i st)"
  by (simp add: ensureAndReset_def Let_def ensureSession_handles resetSession_handles)

lemma getSession_handles: "nonempty_handles st \<Longrightarrow> nonempty_handles (fst (getSession n i st))"
  by (auto simp: nonempty_handles_def getSession_def split: option.splits if_splits)

lemma setClaudeSessionId_handles:
  "nonempty_handles st \<Longrightarrow> h \<noteq> [] \<Longrightarrow> nonempty_handles (setClaudeSessionId i h st)"
  by (auto simp: nonempty_handles_def setClaudeSessionId_def split: option.splits if_splits)

lemma addTurn_handles: "nonempty_handles st \<Longrightarrow> nonempty_handles (addTurn n i t st)"
  by (auto simp: nonempty_handles_def addTurn_def emptySession_def Let_def split: option.splits if_splits)

lemma prepareSession_handles:
  "nonempty_handles st \<Longrightarrow> nonempty_handles (fst (prepareSession w a st))"
proof (cases "sessionId a")
  case None
  assume "nonempty_handles st"
  with None show ?thesis by (simp add: prepareSession_no_session)
next
  case (Some i)
  assume inv: "nonempty_handles st"
  show ?thesis
  proof (cases "i = []")
    case True
    with Some inv show ?thesis by (simp add: prepareSession_def)
  next
    case False
    with Some inv show ?thesis
      by (simp add: prepareSession_session Let_def ensureAndReset_handles getSession_handles)
  qed
qed

lemma persist_handles:
  "nonempty_handles st \<Longrightarrow> nonempty_handles (persist w a u r e st)"
  by (auto simp: persist_def Let_def addTurn_handles setClaudeSessionId_handles split: option.splits)

lemma execute_handles:
  assumes "nonempty_handles st"
  shows "nonempty_handles (storage (ClaudeToolHandler_execute w a st))"
proof -
  have p: "nonempty_handles (fst (prepareSession w b st))" for b
    by (rule prepareSession_handles[OF assms])
  show ?thesis
    using assms p[of "a"] 
    by (auto simp: ClaudeToolHandler_execute_def Let_def persist_handles dest!: parse_Inr
        split: sum.splits ZodError.splits prod.splits option.splits)
qed

lemma serve_handles: "nonempty_handles st \<Longrightarrow> nonempty_handles (serve cs st)"
  by (induction cs arbitrary: st) (auto simp: execute_handles)

lemma empty_handles: "nonempty_handles Map.empty"
  by (simp add: nonempty_handles_def)

text \<open>Whatever calls the registry's handler has served, its store holds no empty handle.\<close>

lemma registry_handles: "nonempty_handles (serve cs Map.empty)"
  by (rule serve_handles[OF empty_handles])

lemma truthy_handle:
  "nonempty_handles st \<Longrightarrow> truthy (getClaudeSessionId st i) = (getClaudeSessionId st i \<noteq> None)"
proof (cases "getClaudeSessionId st i")
  case None
  then show ?thesis by simp
next
  case (Some h)
  assume inv: "nonempty_handles st"
  from Some obtain s where "st i = Some s" "claudeSessionId s = Some h"
    by (auto simp: getClaudeSessionId_def split: option.splits)
  with inv have "h \<noteq> []" by (auto simp: nonempty_handles_def)
  with Some show ?thesis by simp
qed

section \<open>The length of the synthesized prompt\<close>

lemma contextLine_string:
  "turn_response t = JStr r \<Longrightarrow>
   contextLine t =
     Some (if includes_str r ''function'' \<or> includes_str r ''def ''
           then ''Previous code context: '' @ take 200 r @ ''...''
           else ''Context: '' @ turn_prompt t @ '' -> '' @ take 100 r @ ''...'')"
  by (simp add: contextLine_def)

lemma length_contextLine:
  assumes "stringResponse t"
  shows "\<exists>l. contextLine t = Some l \<and> length l \<le> 226 + length (turn_prompt t)"
proof -
  from assms obtain r where r: "turn_response t = JStr r"
    by (auto simp: stringResponse_def split: jsval.splits)
  show ?thesis by (simp add: contextLine_string[OF r] min_def)
qed

lemma length_join:
  "length (join sep xs) \<le> sum_list (map length xs) + length sep * (length xs - 1)"
  by (induction sep xs rule: join.induct) auto

lemma length_recentTurns: "length (recentTurns ts) \<le> 2"
  by (simp add: recentTurns_def)

lemma recentTurns_append: "recentTurns (old @ [t1, t2]) = [t1, t2]"
  by (simp add: recentTurns_def)

lemma those_contextLines:
  "list_all stringResponse ts \<Longrightarrow>
   \<exists>ls. those (map contextLine ts) = Some ls \<and> length ls = length ts
        \<and> sum_list (map length ls)
            \<le> 226 * length ts + sum_list (map (\<lambda>t. length (turn_prompt t)) ts)"
proof (induction ts)
  case Nil
  then show ?case by simp
next
  case (Cons t ts)
  from Cons.prems have "stringResponse t" by simp
  from length_contextLine[OF this] obtain l where
    l: "contextLine t = Some l" "length l \<le> 226 + length (turn_prompt t)" by blast
  from Cons obtain ls where
    ls: "those (map contextLine ts) = Some ls" "length ls = length ts"
      "sum_list (map length ls) \<le> 226 * length ts + sum_list (map (\<lambda>t. length (turn_prompt t)) ts)"
    by auto
  have "those (map contextLine (t # ts)) = Some (l # ls)" using l(1) ls(1) by simp
  moreover have "length (l # ls) = length (t # ts)" using ls(2) by simp
  moreover have "sum_list (map length (l # ls))
      \<le> 226 * length (t # ts) + sum_list (map (\<lambda>t. length (turn_prompt t)) (t # ts))"
    using l(2) ls(3) by simp
  ultimately show ?case by blast
qed

text \<open>
  When the responses of the recent turns are strings, the synthesized prompt exists and
  is at most 461 characters longer than the new prompt and the recent prompts together.
\<close>

lemma length_buildEnhancedPrompt:
  assumes "ts \<noteq> []" and "list_all stringResponse (recentTurns ts)"
  shows "\<exists>q. buildEnhancedPrompt ts p = Some q
           \<and> length q \<le> 461 + sum_list (map (\<lambda>t. length (turn_prompt t)) (recentTurns ts)) + length p"
proof -
  let ?r = "recentTurns ts"
  have n: "length ?r \<le> 2" by (rule length_recentTurns)
  from those_contextLines[OF assms(2)] obtain ls where
    ls: "those (map contextLine ?r) = Some ls" "length ls = length ?r"
      "sum_list (map length ls) \<le> 226 * length ?r + sum_list (map (\<lambda>t. length (turn_prompt t)) ?r)"
    by blast
  let ?q = "join [CHR 0x0A] ls @ [CHR 0x0A, CHR 0x0A] @ ''Task: '' @ p"
  have b: "buildEnhancedPrompt ts p = Some ?q"
    using assms(1) ls(1) by (simp add: buildEnhancedPrompt_def Let_def)
  have j: "length (join [CHR 0x0A] ls) \<le> sum_list (map length ls) + (length ls - 1)"
    using length_join[of "[CHR 0x0A]" ls] by simp
  have "length ?q = length (join [CHR 0x0A] ls) + 8 + length p" by simp
  with n j ls(2,3) have "length ?q \<le> 461 + sum_list (map (\<lambda>t. length (turn_prompt t)) ?r) + length p"
    by linarith
  with b show ?thesis by blast
qed

lemma sentPrompt_history:
  assumes "ClaudeToolSchema_parse (is_url w) a = Inr a" and "sessionId a = Some i"
    and "turns_of st i \<noteq> []" and "\<not> truthy (getClaudeSessionId st i)"
  shows "\<not> resumeMode w a st"
    and "sentPrompt w a st =
           (if truthy_bool (resetSession a) then Some (prompt a)
            else buildEnhancedPrompt (turns_of st i) (prompt a))"
proof -
  have ne: "i \<noteq> []" using assms(1,2) parsed_sessionId_nonempty by blast
  show m: "\<not> resumeMode w a st"
    using assms(4) by (simp add: resumeMode_session[OF assms(2) ne] handle_ensureAndReset)
  show "sentPrompt w a st =
           (if truthy_bool (resetSession a) then Some (prompt a)
            else buildEnhancedPrompt (turns_of st i) (prompt a))"
    using assms(2,3) by (simp add: sentPrompt_fresh[OF assms(1) m] turns_of_ensureAndReset)
qed

text \<open>
  There is a prompt to send whenever the recent responses of the call's session are
  strings: synthesizing the prompt only throws on a response that is not one.
\<close>

lemma sentPrompt_defined:
  assumes "ClaudeToolSchema_parse (is_url w) a = Inr a"
    and "\<forall>i. sessionId a = Some i \<longrightarrow> list_all stringResponse (recentTurns (turns_of st i))"
  shows "sentPrompt w a st \<noteq> None"
proof (cases "resumeMode w a st")
  case True
  then have "sentPrompt w a st = Some (prompt a)"
    by (auto simp: resumeMode_def sentPrompt_def prepareSession_def Let_def
        split: option.splits prod.splits if_splits)
  then show ?thesis by simp
next
  case False
  show ?thesis
  proof (cases "sessionId a")
    case None
    then show ?thesis by (simp add: sentPrompt_fresh[OF assms(1) False])
  next
    case (Some i)
    show ?thesis
    proof (cases "truthy_bool (resetSession a) \<or> turns_of st i = []")
      case True
      then show ?thesis
        using Some by (auto simp: sentPrompt_fresh[OF assms(1) False] turns_of_ensureAndReset)
    next
      case no: False
      with assms(2) Some have "list_all stringResponse (recentTurns (turns_of st i))" "turns_of st i \<noteq> []"
        by auto
      from length_buildEnhancedPrompt[OF this(2,1), of "prompt a"] obtain q where
        "buildEnhancedPrompt (turns_of st i) (prompt a) = Some q" by blast
      then show ?thesis
        using Some no by (simp add: sentPrompt_fresh[OF assms(1) False] turns_of_ensureAndReset)
    qed
  qed
qed

text \<open>
  So a call on a session with history and no native handle, whose recent responses are
  strings, sends a prompt within that bound.
\<close>

lemma bounded_for_string_responses:
  assumes "ClaudeToolSchema_parse (is_url w) a = Inr a" and "sessionId a = Some i"
    and "turns_of st i \<noteq> []" and "\<not> truthy (getClaudeSessionId st i)"
    and "list_all stringResponse (recentTurns (turns_of st i))"
  shows "\<exists>c. spawned (ClaudeToolHandler_execute w a st) = [c]
           \<and> sentPrompt w a st = Some (cmdArgs c ! 1)
           \<and> length (cmdArgs c ! 1)
               \<le> 461 + sum_list (map (\<lambda>t. length (turn_prompt t)) (recentTurns (turns_of st i)))
                  + length (prompt a)"
proof -
  note h = sentPrompt_history[OF assms(1-4)]
  from length_buildEnhancedPrompt[OF assms(3,5), of "prompt a"] obtain q where
    q: "buildEnhancedPrompt (turns_of st i) (prompt a) = Some q"
       "length q \<le> 461 + sum_list (map (\<lambda>t. length (turn_prompt t)) (recentTurns (turns_of st i)))
                  + length (prompt a)"
    by blast
  let ?p = "if truthy_bool (resetSession a) then prompt a else q"
  have sp: "sentPrompt w a st = Some ?p" using h(2) q(1) by simp
  have lp: "length ?p \<le> 461 + sum_list (map (\<lambda>t. length (turn_prompt t)) (recentTurns (turns_of st i)))
                  + length (prompt a)"
    using q(2) by simp
  from spawned_fresh[OF assms(1) h(1)] sp obtain c where
    c: "spawned (ClaudeToolHandler_execute w a st) = [c]"
       "cmdArgs c = freshArgs ?p (selectedModel w (model a)) a"
    by auto
  have "cmdArgs c ! 1 = ?p" using c(2) by (simp add: freshArgs_def)
  with c(1) sp lp show ?thesis by auto
qed

section \<open>Unfolding rules for concrete calls\<close>

lemmas schema_defs =
  ClaudeToolSchema_parse_def ClaudeToolSchema_issues_def sessionId_issues_def
  sessionId_max_def sessionId_regex_def sessionIdChar_def outputFormat_issues_def
  maxTurns_issues_def url_issues_def fallbackProviders_issues_def

lemmas fixture_defs =
  mockWorld_def mockResolved_def mockParse_def promptOnly_def inSession_def storeWith_def reviewOf_def

lemmas store_defs =
  ensureAndReset_def ensureSession_def resetSession_store_def getClaudeSessionId_def
  setClaudeSessionId_def getSession_def addTurn_def turns_of_def emptySession_def Let_def

lemmas handler_defs =
  ClaudeToolHandler_execute_def prepareSession_def resumeMode_def sentPrompt_def selectedModel_def
  buildCmdArgs_def resumeArgs_def freshArgs_def invocation_def runCommand_def parseOutput_def
  persist_def claudeMetadata_def claudeResult_def DEFAULT_CLAUDE_MODEL_def Let_def

section \<open>Resume or fresh (C1)\<close>

text \<open>
  Claim C1. A call that supplies a session id runs in resume mode if and only if a native
  handle is stored for the session once the session has been ensured and a requested
  reset applied; a reset clears the handle, so a resetting call is always fresh; and the
  subprocess gets the resume list exactly in that case, and otherwise the fresh list, or
  no call at all when synthesizing the prompt throws, which needs a stored response
  that is not a string. The store is any store in which no native handle is the empty string; \<open>execute_handles\<close>
  shows that every call keeps it so, and \<open>registry_handles\<close> that the registry's store,
  empty at the start, is always such a store.
\<close>

theorem resume_iff_native_handle:
  assumes "ClaudeToolSchema_parse (is_url w) a = Inr a" and "sessionId a = Some i"
    and "nonempty_handles st"
  shows "resumeMode w a st = (getClaudeSessionId (ensureAndReset w a i st) i \<noteq> None)
         \<and> getClaudeSessionId (ensureAndReset w a i st) i =
             (if truthy_bool (resetSession a) then None else getClaudeSessionId st i)
         \<and> map cmdArgs (spawned (ClaudeToolHandler_execute w a st)) =
             (case getClaudeSessionId (ensureAndReset w a i st) i of
                None \<Rightarrow>
                  (case sentPrompt w a st of
                     None \<Rightarrow> []
                   | Some p \<Rightarrow> [freshArgs p (selectedModel w (model a)) a])
              | Some h \<Rightarrow> [resumeArgs (prompt a) h (selectedModel w (model a)) a])
         \<and> (list_all stringResponse (recentTurns (turns_of st i)) \<longrightarrow> sentPrompt w a st \<noteq> None)"
proof -
  let ?st2 = "ensureAndReset w a i st"
  have ne: "i \<noteq> []" using assms(1,2) parsed_sessionId_nonempty by blast
  have inv2: "nonempty_handles ?st2" by (rule ensureAndReset_handles[OF assms(3)])
  have mode: "resumeMode w a st = (getClaudeSessionId ?st2 i \<noteq> None)"
    using resumeMode_session[OF assms(2) ne] truthy_handle[OF inv2] by simp
  have nonempty: "h \<noteq> []" if "getClaudeSessionId ?st2 i = Some h" for h
    using truthy_handle[OF inv2, of i] that by simp
  have args: "map cmdArgs (spawned (ClaudeToolHandler_execute w a st)) =
             (case getClaudeSessionId ?st2 i of
                None \<Rightarrow>
                  (case sentPrompt w a st of
                     None \<Rightarrow> []
                   | Some p \<Rightarrow> [freshArgs p (selectedModel w (model a)) a])
              | Some h \<Rightarrow> [resumeArgs (prompt a) h (selectedModel w (model a)) a])"
    using nonempty by (simp add: spawned_session[OF assms(1,2)] split: option.splits)
  have defined: "list_all stringResponse (recentTurns (turns_of st i)) \<longrightarrow> sentPrompt w a st \<noteq> None"
    using sentPrompt_defined[OF assms(1), of st] assms(2) by simp
  from mode args defined show ?thesis by (simp add: handle_ensureAndReset)
qed

text \<open>
  C1 at the resume test (a stored handle gives resume mode) and at the reset test (the
  same call with \<open>resetSession\<close> set is fresh).
\<close>

theorem resume_iff_native_handle_witness:
  \<open>ClaudeToolSchema_parse (is_url (mockWorld None \<lparr>stdout = ''{"result":"Response"}'', stderr = []\<rparr>))
      (inSession ''s1'' ''Continue the task'') = Inr (inSession ''s1'' ''Continue the task'')
   \<and> sessionId (inSession ''s1'' ''Continue the task'') = Some ''s1''
   \<and> nonempty_handles (storeWith ''s1'' [] (Some ''existing-claude-session-id''))
   \<and> resumeMode (mockWorld None \<lparr>stdout = ''{"result":"Response"}'', stderr = []\<rparr>)
        (inSession ''s1'' ''Continue the task'') (storeWith ''s1'' [] (Some ''existing-claude-session-id''))
   \<and> \<not> resumeMode (mockWorld None \<lparr>stdout = ''{"result":"Response"}'', stderr = []\<rparr>)
        ((inSession ''s1'' ''Reset and start new'')\<lparr>resetSession := Some True\<rparr>)
        (storeWith ''s1'' [] (Some ''old-session-id''))\<close>
proof -
  let ?w = \<open>mockWorld None \<lparr>stdout = ''{"result":"Response"}'', stderr = []\<rparr>\<close>
  let ?a = "inSession ''s1'' ''Continue the task''"
  let ?st = "storeWith ''s1'' [] (Some ''existing-claude-session-id'')"
  let ?b = "(inSession ''s1'' ''Reset and start new'')\<lparr>resetSession := Some True\<rparr>"
  let ?su = "storeWith ''s1'' [] (Some ''old-session-id'')"
  have a1: "ClaudeToolSchema_parse (is_url ?w) ?a = Inr ?a"
    by (simp add: schema_defs fixture_defs)
  have a2: "sessionId ?a = Some ''s1''" by (simp add: fixture_defs)
  have a3: "nonempty_handles ?st" by (simp add: nonempty_handles_def fixture_defs)
  have b1: "ClaudeToolSchema_parse (is_url ?w) ?b = Inr ?b"
    by (simp add: schema_defs fixture_defs)
  have b2: "sessionId ?b = Some ''s1''" by (simp add: fixture_defs)
  have b3: "nonempty_handles ?su" by (simp add: nonempty_handles_def fixture_defs)
  have a4: "getClaudeSessionId ?st ''s1'' = Some ''existing-claude-session-id''"
    by (simp add: getClaudeSessionId_def fixture_defs)
  have a5: "\<not> truthy_bool (resetSession ?a)" "truthy_bool (resetSession ?b)"
    by (simp_all add: fixture_defs)
  from resume_iff_native_handle[OF a1 a2 a3] a4 a5 have ra: "resumeMode ?w ?a ?st" by simp
  from resume_iff_native_handle[OF b1 b2 b3] a5 have rb: "\<not> resumeMode ?w ?b ?su" by simp
  from a1 a2 a3 ra rb show ?thesis by simp
qed

section \<open>The argument list in fresh mode (C2)\<close>

text \<open>
  Claim C2, as amended. In fresh mode with none of \<open>outputFormat\<close>, \<open>maxTurns\<close>,
  \<open>dangerouslySkipPermissions\<close>, \<open>allowedTools\<close>, \<open>workingDirectory\<close> set, the argument list
  is exactly \<open>-p\<close>, the prompt sent, \<open>--model\<close>, the selected model, \<open>--output-format\<close>,
  \<open>json\<close>. The prompt sent is the caller's prompt when there is no session id, the call
  resets the session, or the session has no turns, and the synthesized prompt otherwise.
  When synthesizing the prompt throws there is no prompt, and no subprocess call; that
  needs a stored response that is not a string.
\<close>

theorem fresh_args_no_options:
  assumes "ClaudeToolSchema_parse (is_url w) a = Inr a" and "\<not> resumeMode w a st"
    and "outputFormat a = None" and "maxTurns a = None" and "dangerouslySkipPermissions a = None"
    and "allowedTools a = None" and "workingDirectory a = None"
  shows "map cmdArgs (spawned (ClaudeToolHandler_execute w a st)) =
           (case sentPrompt w a st of
              None \<Rightarrow> []
            | Some P \<Rightarrow>
                [[''-p'', P, ''--model'', selectedModel w (model a), ''--output-format'', ''json'']])
         \<and> sentPrompt w a st =
             (case sessionId a of
                None \<Rightarrow> Some (prompt a)
              | Some i \<Rightarrow>
                  if truthy_bool (resetSession a) \<or> turns_of st i = [] then Some (prompt a)
                  else buildEnhancedPrompt (turns_of st i) (prompt a))
         \<and> ((\<forall>i. sessionId a = Some i \<longrightarrow> list_all stringResponse (recentTurns (turns_of st i)))
              \<longrightarrow> sentPrompt w a st \<noteq> None)"
proof -
  have args: "map cmdArgs (spawned (ClaudeToolHandler_execute w a st)) =
           (case sentPrompt w a st of
              None \<Rightarrow> []
            | Some P \<Rightarrow>
                [[''-p'', P, ''--model'', selectedModel w (model a), ''--output-format'', ''json'']])"
    using assms(3-)
    by (auto simp: spawned_fresh[OF assms(1,2)] freshArgs_def split: option.splits)
  have sent: "sentPrompt w a st =
             (case sessionId a of
                None \<Rightarrow> Some (prompt a)
              | Some i \<Rightarrow>
                  if truthy_bool (resetSession a) \<or> turns_of st i = [] then Some (prompt a)
                  else buildEnhancedPrompt (turns_of st i) (prompt a))"
    by (auto simp: sentPrompt_fresh[OF assms(1,2)] turns_of_ensureAndReset split: option.splits)
  have defined: "(\<forall>i. sessionId a = Some i \<longrightarrow> list_all stringResponse (recentTurns (turns_of st i)))
              \<longrightarrow> sentPrompt w a st \<noteq> None"
    using sentPrompt_defined[OF assms(1), of st] by blast
  from args sent defined show ?thesis by blast
qed

text \<open>
  C2 at the manual-context test: a session with one earlier turn and no native handle.
\<close>

theorem fresh_args_no_options_witness:
  \<open>ClaudeToolSchema_parse (is_url (mockWorld None \<lparr>stdout = ''{"result":"Response"}'', stderr = []\<rparr>))
      (inSession ''s1'' ''Follow up question'') = Inr (inSession ''s1'' ''Follow up question'')
   \<and> \<not> resumeMode (mockWorld None \<lparr>stdout = ''{"result":"Response"}'', stderr = []\<rparr>)
        (inSession ''s1'' ''Follow up question'')
        (storeWith ''s1'' [\<lparr>turn_prompt = ''Previous question'', turn_response = JStr ''Previous answer'', timestamp = 3\<rparr>] None)
   \<and> outputFormat (inSession ''s1'' ''Follow up question'') = None
   \<and> maxTurns (inSession ''s1'' ''Follow up question'') = None
   \<and> dangerouslySkipPermissions (inSession ''s1'' ''Follow up question'') = None
   \<and> allowedTools (inSession ''s1'' ''Follow up question'') = None
   \<and> workingDirectory (inSession ''s1'' ''Follow up question'') = None
   \<and> map cmdArgs (spawned (ClaudeToolHandler_execute
        (mockWorld None \<lparr>stdout = ''{"result":"Response"}'', stderr = []\<rparr>)
        (inSession ''s1'' ''Follow up question'')
        (storeWith ''s1'' [\<lparr>turn_prompt = ''Previous question'', turn_response = JStr ''Previous answer'', timestamp = 3\<rparr>] None)))
      = [[''-p'',
          ''Context: Previous question -> Previous answer...'' @ [CHR 0x0A, CHR 0x0A] @ ''Task: Follow up question'',
          ''--model'', ''claude-sonnet-4-6'', ''--output-format'', ''json'']]\<close>
proof -
  let ?w = \<open>mockWorld None \<lparr>stdout = ''{"result":"Response"}'', stderr = []\<rparr>\<close>
  let ?a = "inSession ''s1'' ''Follow up question''"
  let ?st = "storeWith ''s1'' [\<lparr>turn_prompt = ''Previous question'', turn_response = JStr ''Previous answer'', timestamp = 3\<rparr>] None"
  have h1: "ClaudeToolSchema_parse (is_url ?w) ?a = Inr ?a"
    by (simp add: schema_defs fixture_defs)
  have h2: "\<not> resumeMode ?w ?a ?st"
    by (simp add: resumeMode_def prepareSession_def store_defs fixture_defs)
  have h3: "outputFormat ?a = None" "maxTurns ?a = None" "dangerouslySkipPermissions ?a = None"
    "allowedTools ?a = None" "workingDirectory ?a = None"
    by (simp_all add: fixture_defs)
  have m: "selectedModel ?w (model ?a) = ''claude-sonnet-4-6''"
    by (simp add: selectedModel_def DEFAULT_CLAUDE_MODEL_def fixture_defs)
  have s: "sessionId ?a = Some ''s1''" "\<not> truthy_bool (resetSession ?a)" "prompt ?a = ''Follow up question''"
    by (simp_all add: fixture_defs)
  have t: "turns_of ?st ''s1'' = [\<lparr>turn_prompt = ''Previous question'', turn_response = JStr ''Previous answer'', timestamp = 3\<rparr>]"
    by (simp add: turns_of_def fixture_defs)
  have b: "buildEnhancedPrompt [\<lparr>turn_prompt = ''Previous question'', turn_response = JStr ''Previous answer'', timestamp = 3\<rparr>] ''Follow up question''
      = Some (''Context: Previous question -> Previous answer...'' @ [CHR 0x0A, CHR 0x0A] @ ''Task: Follow up question'')"
    by (simp add: buildEnhancedPrompt_def recentTurns_def contextLine_def)
  from fresh_args_no_options[OF h1 h2 h3] m s t b h1 h2 h3 show ?thesis by simp
qed

text \<open>
  C2 as stated fails: the list the subprocess gets starts with \<open>-p\<close>, so it is not the
  five-element list that starts with the task.
\<close>

theorem fresh_args_without_p_counterexample:
  \<open>\<not> resumeMode (mockWorld None \<lparr>stdout = ''{"result":"Response"}'', stderr = []\<rparr>)
        (promptOnly ''Test prompt'') Map.empty
   \<and> selectedModel (mockWorld None \<lparr>stdout = ''{"result":"Response"}'', stderr = []\<rparr>)
        (model (promptOnly ''Test prompt'')) = ''claude-sonnet-4-6''
   \<and> map cmdArgs (spawned (ClaudeToolHandler_execute
          (mockWorld None \<lparr>stdout = ''{"result":"Response"}'', stderr = []\<rparr>)
          (promptOnly ''Test prompt'') Map.empty))
       = [[''-p'', ''Test prompt'', ''--model'', ''claude-sonnet-4-6'', ''--output-format'', ''json'']]
   \<and> map cmdArgs (spawned (ClaudeToolHandler_execute
          (mockWorld None \<lparr>stdout = ''{"result":"Response"}'', stderr = []\<rparr>)
          (promptOnly ''Test prompt'') Map.empty))
       \<noteq> [[''Test prompt'', ''--model'', ''claude-sonnet-4-6'', ''--output-format'', ''json'']]\<close>
  by (simp add: handler_defs schema_defs fixture_defs)

section \<open>The argument list in resume mode (C3)\<close>

text \<open>
  Claim C3, as amended. In resume mode the argument list is exactly \<open>-p\<close>, the caller's
  prompt, \<open>--resume\<close>, the stored native handle, \<open>--model\<close>, the selected model,
  \<open>--output-format\<close>, the explicit format or \<open>json\<close>, followed by \<open>--cwd\<close> and the
  working directory when one is given and not empty. Nothing else is in the list,
  whatever \<open>maxTurns\<close>, \<open>dangerouslySkipPermissions\<close> and \<open>allowedTools\<close> are.
\<close>

theorem resume_args_exact:
  assumes "ClaudeToolSchema_parse (is_url w) a = Inr a" and "resumeMode w a st"
  shows "\<exists>i H. sessionId a = Some i \<and> getClaudeSessionId (ensureAndReset w a i st) i = Some H \<and>
           map cmdArgs (spawned (ClaudeToolHandler_execute w a st)) =
           [[''-p'', prompt a, ''--resume'', H, ''--model'', selectedModel w (model a),
             ''--output-format'', (case outputFormat a of None \<Rightarrow> ''json'' | Some f \<Rightarrow> f)]
            @ (case workingDirectory a of None \<Rightarrow> [] | Some d \<Rightarrow> if d = [] then [] else [''--cwd'', d])]"
proof -
  from spawned_resume[OF assms] obtain i h where
    "sessionId a = Some i" "getClaudeSessionId (ensureAndReset w a i st) i = Some h"
    "map cmdArgs (spawned (ClaudeToolHandler_execute w a st)) = [resumeArgs (prompt a) h (selectedModel w (model a)) a]"
    by auto
  then show ?thesis
    by (auto simp: resumeArgs_def parsed_outputFormat[OF assms(1)] split: option.splits)
qed

text \<open>
  C3 at a resuming call that sets every optional field: max turns, the permission bypass
  and the allowlist leave no trace, the working directory does.
\<close>

theorem resume_args_exact_witness:
  \<open>ClaudeToolSchema_parse (is_url (mockWorld None \<lparr>stdout = ''{"result":"Response"}'', stderr = []\<rparr>))
      resumeWithOptions = Inr resumeWithOptions
   \<and> resumeMode (mockWorld None \<lparr>stdout = ''{"result":"Response"}'', stderr = []\<rparr>)
        resumeWithOptions (storeWith ''s1'' [] (Some ''existing-conv-id''))
   \<and> map cmdArgs (spawned (ClaudeToolHandler_execute
        (mockWorld None \<lparr>stdout = ''{"result":"Response"}'', stderr = []\<rparr>)
        resumeWithOptions (storeWith ''s1'' [] (Some ''existing-conv-id''))))
      = [[''-p'', ''Use different model'', ''--resume'', ''existing-conv-id'', ''--model'',
          ''claude-opus-4-6'', ''--output-format'', ''text'', ''--cwd'', ''/repo'']]\<close>
proof -
  let ?w = \<open>mockWorld None \<lparr>stdout = ''{"result":"Response"}'', stderr = []\<rparr>\<close>
  let ?st = "storeWith ''s1'' [] (Some ''existing-conv-id'')"
  have h1: "ClaudeToolSchema_parse (is_url ?w) resumeWithOptions = Inr resumeWithOptions"
    by (simp add: schema_defs fixture_defs resumeWithOptions_def)
  have h2: "resumeMode ?w resumeWithOptions ?st"
    by (simp add: resumeMode_def prepareSession_def store_defs fixture_defs resumeWithOptions_def)
  have f: "sessionId resumeWithOptions = Some ''s1''" "prompt resumeWithOptions = ''Use different model''"
    "outputFormat resumeWithOptions = Some ''text''" "workingDirectory resumeWithOptions = Some ''/repo''"
    "selectedModel ?w (model resumeWithOptions) = ''claude-opus-4-6''"
    by (simp_all add: fixture_defs resumeWithOptions_def selectedModel_def)
  have g: "getClaudeSessionId (ensureAndReset ?w resumeWithOptions ''s1'' ?st) ''s1'' = Some ''existing-conv-id''"
    by (simp add: store_defs fixture_defs resumeWithOptions_def)
  from resume_args_exact[OF h1 h2] f g h1 h2 show ?thesis by auto
qed

text \<open>
  C3 as stated fails: the resume list starts with \<open>-p\<close>, so it is not the list that
  starts with the task.
\<close>

theorem resume_args_without_p_counterexample:
  \<open>resumeMode (mockWorld None \<lparr>stdout = ''{"result":"Response"}'', stderr = []\<rparr>)
        (inSession ''s1'' ''Continue the task'') (storeWith ''s1'' [] (Some ''existing-claude-session-id''))
   \<and> map cmdArgs (spawned (ClaudeToolHandler_execute
          (mockWorld None \<lparr>stdout = ''{"result":"Response"}'', stderr = []\<rparr>)
          (inSession ''s1'' ''Continue the task'') (storeWith ''s1'' [] (Some ''existing-claude-session-id''))))
       = [[''-p'', ''Continue the task'', ''--resume'', ''existing-claude-session-id'', ''--model'',
           ''claude-sonnet-4-6'', ''--output-format'', ''json'']]
   \<and> map cmdArgs (spawned (ClaudeToolHandler_execute
          (mockWorld None \<lparr>stdout = ''{"result":"Response"}'', stderr = []\<rparr>)
          (inSession ''s1'' ''Continue the task'') (storeWith ''s1'' [] (Some ''existing-claude-session-id''))))
       \<noteq> [[''Continue the task'', ''--resume'', ''existing-claude-session-id'', ''--model'',
           ''claude-sonnet-4-6'', ''--output-format'', ''json'']]\<close>
  by (simp add: handler_defs schema_defs fixture_defs store_defs)

section \<open>Model precedence (C4)\<close>

text \<open>
  Claim C4, as amended. The model after \<open>--model\<close>, in every subprocess call of resume
  mode, of fresh mode (there is none when synthesizing the prompt throws) and of a review
  that passes its check, is the request's model when that is present and not
  empty, else the environment's default when that is set and not empty, else
  \<open>claude-sonnet-4-6\<close>.
\<close>

theorem model_precedence:
  assumes "ClaudeToolSchema_parse (is_url w) a = Inr a"
  shows "map (\<lambda>c. take 2 (drop (if resumeMode w a st then 4 else 2) (cmdArgs c)))
           (spawned (ClaudeToolHandler_execute w a st)) =
           (case sentPrompt w a st of
              None \<Rightarrow> []
            | Some P \<Rightarrow> [[''--model'', selectedModel w (model a)]])
       \<and> ((\<forall>i. sessionId a = Some i \<longrightarrow> list_all stringResponse (recentTurns (turns_of st i)))
            \<longrightarrow> sentPrompt w a st \<noteq> None)
       \<and> (\<not> (truthy (review_prompt r) \<and> truthy_bool (uncommitted r)) \<longrightarrow>
            map (\<lambda>c. take 2 (drop 2 (cmdArgs c))) (fst (ReviewToolHandler_execute w r))
              = [[''--model'', selectedModel w (review_model r)]])
       \<and> selectedModel w m =
           (case m of
              Some x \<Rightarrow> if x \<noteq> [] then x
                        else (case env_CLAUDE_DEFAULT_MODEL w of
                                Some e \<Rightarrow> if e \<noteq> [] then e else ''claude-sonnet-4-6''
                              | None \<Rightarrow> ''claude-sonnet-4-6'')
            | None \<Rightarrow> (case env_CLAUDE_DEFAULT_MODEL w of
                          Some e \<Rightarrow> if e \<noteq> [] then e else ''claude-sonnet-4-6''
                        | None \<Rightarrow> ''claude-sonnet-4-6''))"
proof -
  have c: "map (\<lambda>c. take 2 (drop (if resumeMode w a st then 4 else 2) (cmdArgs c)))
           (spawned (ClaudeToolHandler_execute w a st)) =
           (case sentPrompt w a st of
              None \<Rightarrow> []
            | Some P \<Rightarrow> [[''--model'', selectedModel w (model a)]])"
  proof (cases "resumeMode w a st")
    case True
    from spawned_resume[OF assms True] obtain i h where
      "map cmdArgs (spawned (ClaudeToolHandler_execute w a st)) =
         [resumeArgs (prompt a) h (selectedModel w (model a)) a]" by auto
    then obtain c where "spawned (ClaudeToolHandler_execute w a st) = [c]"
      "cmdArgs c = resumeArgs (prompt a) h (selectedModel w (model a)) a" by auto
    moreover from True have "sentPrompt w a st = Some (prompt a)"
      by (auto simp: resumeMode_def sentPrompt_def prepareSession_def Let_def
          split: option.splits prod.splits if_splits)
    ultimately show ?thesis using True by (simp add: resumeArgs_def)
  next
    case False
    show ?thesis
    proof (cases "sentPrompt w a st")
      case None
      with spawned_fresh[OF assms False] show ?thesis by simp
    next
      case (Some P)
      with spawned_fresh[OF assms False] obtain c where
        "spawned (ClaudeToolHandler_execute w a st) = [c]"
        "cmdArgs c = freshArgs P (selectedModel w (model a)) a" by auto
      with False Some show ?thesis by (simp add: freshArgs_def)
    qed
  qed
  have rv: "\<not> (truthy (review_prompt r) \<and> truthy_bool (uncommitted r)) \<longrightarrow>
            map (\<lambda>c. take 2 (drop 2 (cmdArgs c))) (fst (ReviewToolHandler_execute w r))
              = [[''--model'', selectedModel w (review_model r)]]"
    by (auto simp: ReviewToolHandler_execute_def ReviewToolSchema_parse_def Let_def reviewArgs_def
        split: option.splits prod.splits)
  have s: "selectedModel w m =
           (case m of
              Some x \<Rightarrow> if x \<noteq> [] then x
                        else (case env_CLAUDE_DEFAULT_MODEL w of
                                Some e \<Rightarrow> if e \<noteq> [] then e else ''claude-sonnet-4-6''
                              | None \<Rightarrow> ''claude-sonnet-4-6'')
            | None \<Rightarrow> (case env_CLAUDE_DEFAULT_MODEL w of
                          Some e \<Rightarrow> if e \<noteq> [] then e else ''claude-sonnet-4-6''
                        | None \<Rightarrow> ''claude-sonnet-4-6''))"
    by (simp add: selectedModel_def DEFAULT_CLAUDE_MODEL_def split: option.splits)
  have d: "(\<forall>i. sessionId a = Some i \<longrightarrow> list_all stringResponse (recentTurns (turns_of st i)))
            \<longrightarrow> sentPrompt w a st \<noteq> None"
    using sentPrompt_defined[OF assms, of st] by blast
  from c d rv s show ?thesis by blast
qed

text \<open>
  C4 at the priority test (explicit model over environment), at a review with only the
  environment default, and at the fallback.
\<close>

theorem model_precedence_witness:
  \<open>ClaudeToolSchema_parse (is_url (mockWorld (Some ''claude-opus-4-6'') \<lparr>stdout = ''{"result":"Response"}'', stderr = []\<rparr>))
      ((promptOnly ''Test priority'')\<lparr>model := Some ''claude-haiku-4-5-20251001''\<rparr>)
     = Inr ((promptOnly ''Test priority'')\<lparr>model := Some ''claude-haiku-4-5-20251001''\<rparr>)
   \<and> \<not> (truthy (review_prompt (reviewOf None (Some True))) \<and> truthy_bool (uncommitted (reviewOf None (Some True))))
   \<and> map (\<lambda>c. take 2 (drop 2 (cmdArgs c)))
        (spawned (ClaudeToolHandler_execute
          (mockWorld (Some ''claude-opus-4-6'') \<lparr>stdout = ''{"result":"Response"}'', stderr = []\<rparr>)
          ((promptOnly ''Test priority'')\<lparr>model := Some ''claude-haiku-4-5-20251001''\<rparr>) Map.empty))
      = [[''--model'', ''claude-haiku-4-5-20251001'']]
   \<and> map (\<lambda>c. take 2 (drop 2 (cmdArgs c)))
        (fst (ReviewToolHandler_execute
          (mockWorld (Some ''claude-opus-4-6'') \<lparr>stdout = ''{"result":"Response"}'', stderr = []\<rparr>)
          (reviewOf None (Some True))))
      = [[''--model'', ''claude-opus-4-6'']]
   \<and> selectedModel (mockWorld None \<lparr>stdout = ''{"result":"Response"}'', stderr = []\<rparr>) None
      = ''claude-sonnet-4-6''\<close>
proof -
  let ?w = \<open>mockWorld (Some ''claude-opus-4-6'') \<lparr>stdout = ''{"result":"Response"}'', stderr = []\<rparr>\<close>
  let ?v = \<open>mockWorld None \<lparr>stdout = ''{"result":"Response"}'', stderr = []\<rparr>\<close>
  let ?a = "(promptOnly ''Test priority'')\<lparr>model := Some ''claude-haiku-4-5-20251001''\<rparr>"
  let ?r = "reviewOf None (Some True)"
  have h1: "ClaudeToolSchema_parse (is_url ?w) ?a = Inr ?a"
    by (simp add: schema_defs fixture_defs)
  have h2: "\<not> (truthy (review_prompt ?r) \<and> truthy_bool (uncommitted ?r))"
    by (simp add: fixture_defs)
  have f: "\<not> resumeMode ?w ?a Map.empty"
    by (simp add: resumeMode_def prepareSession_def fixture_defs)
  have e: "model ?a = Some ''claude-haiku-4-5-20251001''" "review_model ?r = None"
    "env_CLAUDE_DEFAULT_MODEL ?w = Some ''claude-opus-4-6''" "env_CLAUDE_DEFAULT_MODEL ?v = None"
    by (simp_all add: fixture_defs)
  have v1: "ClaudeToolSchema_parse (is_url ?v) ?a = Inr ?a"
    by (simp add: schema_defs fixture_defs)
  have sp: "sentPrompt ?w ?a Map.empty = Some ''Test priority''"
    by (simp add: sentPrompt_def prepareSession_def fixture_defs)
  from model_precedence[OF h1, where st = Map.empty and r = ?r and m = "model ?a"] f e sp
  have c1: "map (\<lambda>c. take 2 (drop 2 (cmdArgs c))) (spawned (ClaudeToolHandler_execute ?w ?a Map.empty))
      = [[''--model'', ''claude-haiku-4-5-20251001'']]"
    by simp
  from model_precedence[OF h1, where st = Map.empty and r = ?r and m = "review_model ?r"] h2 e
  have c2: "map (\<lambda>c. take 2 (drop 2 (cmdArgs c))) (fst (ReviewToolHandler_execute ?w ?r))
      = [[''--model'', ''claude-opus-4-6'']]"
    by simp
  from model_precedence[OF v1, where st = Map.empty and r = ?r and m = None] e
  have c3: "selectedModel ?v None = ''claude-sonnet-4-6''"
    by simp
  from h1 h2 c1 c2 c3 show ?thesis by simp
qed

text \<open>
  C4 as stated fails: a request whose explicit model is the empty string passes the
  schema, and the subprocess gets the environment's model, not the request's.
\<close>

theorem empty_explicit_model_counterexample:
  \<open>ClaudeToolSchema_parse (is_url (mockWorld (Some ''claude-opus-4-6'') \<lparr>stdout = ''{"result":"Response"}'', stderr = []\<rparr>))
      ((promptOnly ''Test priority'')\<lparr>model := Some []\<rparr>)
     = Inr ((promptOnly ''Test priority'')\<lparr>model := Some []\<rparr>)
   \<and> model ((promptOnly ''Test priority'')\<lparr>model := Some []\<rparr>) = Some []
   \<and> map cmdArgs (spawned (ClaudeToolHandler_execute
          (mockWorld (Some ''claude-opus-4-6'') \<lparr>stdout = ''{"result":"Response"}'', stderr = []\<rparr>)
          ((promptOnly ''Test priority'')\<lparr>model := Some []\<rparr>) Map.empty))
      = [[''-p'', ''Test priority'', ''--model'', ''claude-opus-4-6'', ''--output-format'', ''json'']]
   \<and> map cmdArgs (spawned (ClaudeToolHandler_execute
          (mockWorld (Some ''claude-opus-4-6'') \<lparr>stdout = ''{"result":"Response"}'', stderr = []\<rparr>)
          ((promptOnly ''Test priority'')\<lparr>model := Some []\<rparr>) Map.empty))
      \<noteq> [[''-p'', ''Test priority'', ''--model'', [], ''--output-format'', ''json'']]\<close>
  by (simp add: handler_defs schema_defs fixture_defs)

section \<open>Structured output (C5)\<close>

text \<open>
  Claim C5, as amended. When the subprocess resolves and its stdout parses to an object
  with \<open>result\<close> X and \<open>session_id\<close> Y: the response text is X; without a session id the
  store is unchanged; with a session id the turn (caller's prompt, X) is appended to that
  session, its native handle afterwards is Y when the call ran fresh and Y is not empty
  and is the handle it had otherwise, and no other session changes.
\<close>

theorem structured_output_persisted:
  assumes "ClaudeToolSchema_parse (is_url w) a = Inr a"
    and "map (runCommand w) (spawned (ClaudeToolHandler_execute w a st)) = [Some r]"
    and "JSON_parse w (stdout r) = Value (Some (JStr X)) (Some Y)"
  shows "(\<exists>res. returned (ClaudeToolHandler_execute w a st) = Inr res \<and> content_text res = JStr X)
       \<and> (sessionId a = None \<longrightarrow> storage (ClaudeToolHandler_execute w a st) = st)
       \<and> (\<forall>i. sessionId a = Some i \<longrightarrow>
            turns_of (storage (ClaudeToolHandler_execute w a st)) i =
              (if truthy_bool (resetSession a) then [] else turns_of st i)
              @ [\<lparr>turn_prompt = prompt a, turn_response = JStr X, timestamp = now w\<rparr>]
            \<and> getClaudeSessionId (storage (ClaudeToolHandler_execute w a st)) i =
                (if \<not> resumeMode w a st \<and> Y \<noteq> [] then Some Y
                 else getClaudeSessionId (ensureAndReset w a i st) i)
            \<and> (\<forall>j. j \<noteq> i \<longrightarrow> storage (ClaudeToolHandler_execute w a st) j = st j))"
proof -
  have po: "parseOutput w ''No output from Claude'' r = (JStr X, Some Y)"
    using assms(3) by (simp add: parseOutput_def)
  note parts = execute_resolved_parts[OF assms(1,2), unfolded po fst_conv snd_conv]
  have rt: "\<exists>res. returned (ClaudeToolHandler_execute w a st) = Inr res \<and> content_text res = JStr X"
    by (simp add: parts(2) claudeResult_def)
  have none: "sessionId a = None \<longrightarrow> storage (ClaudeToolHandler_execute w a st) = st"
    by (simp add: parts(1) persist_no_session prepareSession_no_session)
  have some: "turns_of (storage (ClaudeToolHandler_execute w a st)) i =
              (if truthy_bool (resetSession a) then [] else turns_of st i)
              @ [\<lparr>turn_prompt = prompt a, turn_response = JStr X, timestamp = now w\<rparr>]
            \<and> getClaudeSessionId (storage (ClaudeToolHandler_execute w a st)) i =
                (if \<not> resumeMode w a st \<and> Y \<noteq> [] then Some Y
                 else getClaudeSessionId (ensureAndReset w a i st) i)
            \<and> (\<forall>j. j \<noteq> i \<longrightarrow> storage (ClaudeToolHandler_execute w a st) j = st j)"
    if s: "sessionId a = Some i" for i
  proof -
    have ne: "i \<noteq> []" using assms(1) s parsed_sessionId_nonempty by blast
    have t: "turns_of (storage (ClaudeToolHandler_execute w a st)) i =
              (if truthy_bool (resetSession a) then [] else turns_of st i)
              @ [\<lparr>turn_prompt = prompt a, turn_response = JStr X, timestamp = now w\<rparr>]"
      by (simp add: parts(1) persist_turns[OF s ne] prepared_turns[OF s ne] turns_of_ensureAndReset)
    have h: "getClaudeSessionId (storage (ClaudeToolHandler_execute w a st)) i =
                (if \<not> resumeMode w a st \<and> Y \<noteq> [] then Some Y
                 else getClaudeSessionId (ensureAndReset w a i st) i)"
      using prepared_exists[OF s ne, of w st]
      by (simp add: parts(1) persist_handle[OF s ne] prepared_handle[OF s ne])
    have o: "\<forall>j. j \<noteq> i \<longrightarrow> storage (ClaudeToolHandler_execute w a st) j = st j"
      by (simp add: parts(1) persist_other[OF s] prepared_other[OF s ne])
    from t h o show ?thesis by blast
  qed
  from rt none some show ?thesis by blast
qed

text \<open>
  C5 at the first message of a new session, with the stdout of the claim.
\<close>

theorem structured_output_persisted_witness:
  \<open>ClaudeToolSchema_parse (is_url (mockWorld None \<lparr>stdout = ''{"result":"X","session_id":"Y"}'', stderr = []\<rparr>))
      (inSession ''s1'' ''First message'') = Inr (inSession ''s1'' ''First message'')
   \<and> map (runCommand (mockWorld None \<lparr>stdout = ''{"result":"X","session_id":"Y"}'', stderr = []\<rparr>))
        (spawned (ClaudeToolHandler_execute
          (mockWorld None \<lparr>stdout = ''{"result":"X","session_id":"Y"}'', stderr = []\<rparr>)
          (inSession ''s1'' ''First message'') Map.empty))
      = [Some \<lparr>stdout = ''{"result":"X","session_id":"Y"}'', stderr = []\<rparr>]
   \<and> JSON_parse (mockWorld None \<lparr>stdout = ''{"result":"X","session_id":"Y"}'', stderr = []\<rparr>)
        (stdout \<lparr>stdout = ''{"result":"X","session_id":"Y"}'', stderr = []\<rparr>)
      = Value (Some (JStr ''X'')) (Some ''Y'')
   \<and> turns_of (storage (ClaudeToolHandler_execute
          (mockWorld None \<lparr>stdout = ''{"result":"X","session_id":"Y"}'', stderr = []\<rparr>)
          (inSession ''s1'' ''First message'') Map.empty)) ''s1''
      = [\<lparr>turn_prompt = ''First message'', turn_response = JStr ''X'', timestamp = 7\<rparr>]
   \<and> getClaudeSessionId (storage (ClaudeToolHandler_execute
          (mockWorld None \<lparr>stdout = ''{"result":"X","session_id":"Y"}'', stderr = []\<rparr>)
          (inSession ''s1'' ''First message'') Map.empty)) ''s1''
      = Some ''Y''\<close>
proof -
  let ?r = \<open>\<lparr>stdout = ''{"result":"X","session_id":"Y"}'', stderr = []\<rparr>\<close>
  let ?w = "mockWorld None ?r"
  let ?a = "inSession ''s1'' ''First message''"
  have h1: "ClaudeToolSchema_parse (is_url ?w) ?a = Inr ?a"
    by (simp add: schema_defs fixture_defs)
  have h2: "map (runCommand ?w) (spawned (ClaudeToolHandler_execute ?w ?a Map.empty)) = [Some ?r]"
    by (simp add: handler_defs schema_defs fixture_defs store_defs)
  have h3: "JSON_parse ?w (stdout ?r) = Value (Some (JStr ''X'')) (Some ''Y'')"
    by (simp add: fixture_defs)
  have f: "sessionId ?a = Some ''s1''" "\<not> truthy_bool (resetSession ?a)" "prompt ?a = ''First message''"
    "now ?w = 7" "turns_of Map.empty ''s1'' = []"
    by (simp_all add: fixture_defs turns_of_def)
  have m: "\<not> resumeMode ?w ?a Map.empty"
    by (simp add: resumeMode_def prepareSession_def fixture_defs store_defs)
  from structured_output_persisted[OF h1 h2 h3] f m
  have "turns_of (storage (ClaudeToolHandler_execute ?w ?a Map.empty)) ''s1''
      = [\<lparr>turn_prompt = ''First message'', turn_response = JStr ''X'', timestamp = 7\<rparr>]
    \<and> getClaudeSessionId (storage (ClaudeToolHandler_execute ?w ?a Map.empty)) ''s1'' = Some ''Y''"
    by simp
  with h1 h2 h3 show ?thesis by simp
qed

text \<open>
  C5 as stated fails when Y is the empty string: the call has a session id and runs
  fresh, and no native handle is stored.
\<close>

theorem empty_extracted_handle_counterexample:
  \<open>ClaudeToolSchema_parse (is_url (mockWorld None \<lparr>stdout = ''{"result":"X","session_id":""}'', stderr = []\<rparr>))
      (inSession ''s1'' ''First message'') = Inr (inSession ''s1'' ''First message'')
   \<and> map (runCommand (mockWorld None \<lparr>stdout = ''{"result":"X","session_id":""}'', stderr = []\<rparr>))
        (spawned (ClaudeToolHandler_execute
          (mockWorld None \<lparr>stdout = ''{"result":"X","session_id":""}'', stderr = []\<rparr>)
          (inSession ''s1'' ''First message'') Map.empty))
      = [Some \<lparr>stdout = ''{"result":"X","session_id":""}'', stderr = []\<rparr>]
   \<and> JSON_parse (mockWorld None \<lparr>stdout = ''{"result":"X","session_id":""}'', stderr = []\<rparr>)
        (stdout \<lparr>stdout = ''{"result":"X","session_id":""}'', stderr = []\<rparr>)
      = Value (Some (JStr ''X'')) (Some [])
   \<and> sessionId (inSession ''s1'' ''First message'') = Some ''s1''
   \<and> \<not> resumeMode (mockWorld None \<lparr>stdout = ''{"result":"X","session_id":""}'', stderr = []\<rparr>)
        (inSession ''s1'' ''First message'') Map.empty
   \<and> getClaudeSessionId (storage (ClaudeToolHandler_execute
          (mockWorld None \<lparr>stdout = ''{"result":"X","session_id":""}'', stderr = []\<rparr>)
          (inSession ''s1'' ''First message'') Map.empty)) ''s1''
      = None
   \<and> getClaudeSessionId (storage (ClaudeToolHandler_execute
          (mockWorld None \<lparr>stdout = ''{"result":"X","session_id":""}'', stderr = []\<rparr>)
          (inSession ''s1'' ''First message'') Map.empty)) ''s1''
      \<noteq> Some []\<close>
  by (simp add: handler_defs schema_defs fixture_defs store_defs)

section \<open>Unparsable output (C6)\<close>

text \<open>
  Claim C6. When the subprocess resolves and parsing its stdout fails, the call returns
  normally, and the response text is stdout if that is not empty, else stderr if that is
  not empty, else \<open>No output from Claude\<close>.
\<close>

theorem json_fallback:
  assumes "ClaudeToolSchema_parse (is_url w) a = Inr a"
    and "map (runCommand w) (spawned (ClaudeToolHandler_execute w a st)) = [Some r]"
    and "JSON_parse w (stdout r) = Throws"
  shows "\<exists>res. returned (ClaudeToolHandler_execute w a st) = Inr res
          \<and> content_text res =
              JStr (if stdout r \<noteq> [] then stdout r
                    else if stderr r \<noteq> [] then stderr r
                    else ''No output from Claude'')"
proof -
  have po: "fst (parseOutput w ''No output from Claude'' r) =
              JStr (if stdout r \<noteq> [] then stdout r
                    else if stderr r \<noteq> [] then stderr r
                    else ''No output from Claude'')"
    using assms(3) by (simp add: parseOutput_def)
  show ?thesis
    by (simp add: execute_resolved_parts(2)[OF assms(1,2)] po claudeResult_def)
qed

text \<open>
  C6 at empty stdout and empty stderr: the placeholder.
\<close>

theorem json_fallback_witness:
  \<open>ClaudeToolSchema_parse (is_url (mockWorld None \<lparr>stdout = [], stderr = []\<rparr>))
      (promptOnly ''Test prompt'') = Inr (promptOnly ''Test prompt'')
   \<and> map (runCommand (mockWorld None \<lparr>stdout = [], stderr = []\<rparr>))
        (spawned (ClaudeToolHandler_execute (mockWorld None \<lparr>stdout = [], stderr = []\<rparr>)
          (promptOnly ''Test prompt'') Map.empty))
      = [Some \<lparr>stdout = [], stderr = []\<rparr>]
   \<and> JSON_parse (mockWorld None \<lparr>stdout = [], stderr = []\<rparr>) (stdout \<lparr>stdout = [], stderr = []\<rparr>) = Throws
   \<and> (\<exists>res. returned (ClaudeToolHandler_execute (mockWorld None \<lparr>stdout = [], stderr = []\<rparr>)
          (promptOnly ''Test prompt'') Map.empty) = Inr res
        \<and> content_text res = JStr ''No output from Claude'')\<close>
proof -
  let ?r = "\<lparr>stdout = [], stderr = []\<rparr>"
  let ?w = "mockWorld None ?r"
  let ?a = "promptOnly ''Test prompt''"
  have h1: "ClaudeToolSchema_parse (is_url ?w) ?a = Inr ?a"
    by (simp add: schema_defs fixture_defs)
  have h2: "map (runCommand ?w) (spawned (ClaudeToolHandler_execute ?w ?a Map.empty)) = [Some ?r]"
    by (simp add: handler_defs schema_defs fixture_defs store_defs)
  have h3: "JSON_parse ?w (stdout ?r) = Throws"
    by (simp add: fixture_defs)
  from json_fallback[OF h1 h2 h3]
  have "\<exists>res. returned (ClaudeToolHandler_execute ?w ?a Map.empty) = Inr res
        \<and> content_text res = JStr ''No output from Claude''"
    by simp
  with h1 h2 h3 show ?thesis by simp
qed

section \<open>Context synthesis (C7)\<close>

lemma longText_neq: "longText n \<noteq> CHR ''f'' # s" "longText n \<noteq> CHR ''d'' # s"
  by (cases n; simp add: longText_def)+

lemma length_longText: "length (longText n) = n"
  by (simp add: longText_def)

text \<open>
  Claim C7 does not hold of the code. The response the handler stores is
  \<^verbatim>\<open>parsed.result\<close>, whatever JSON value that is. When a call in a session gets the output
  \<^verbatim>\<open>{"result":["xx...x"]}\<close>, the stored response is an array holding one text of \<open>n\<close>
  characters, and no native handle is stored. On the next call in the session,
  \<^verbatim>\<open>includes\<close> and \<^verbatim>\<open>slice(0, 100)\<close> work on the array's elements, not on characters, so the
  line of that turn carries the whole text: the prompt sent has \<open>n + 46\<close> characters,
  beyond any bound. (\<open>bounded_for_string_responses\<close> has the bound the claim states, for
  responses that are strings.)
\<close>

theorem array_response_unbounded:
  \<open>turns_of (storage (ClaudeToolHandler_execute (arrayWorld n) (inSession ''s1'' ''Question'') Map.empty)) ''s1''
     = [\<lparr>turn_prompt = ''Question'', turn_response = JArr [JStr (longText n)], timestamp = 7\<rparr>]
   \<and> getClaudeSessionId
         (storage (ClaudeToolHandler_execute (arrayWorld n) (inSession ''s1'' ''Question'') Map.empty)) ''s1''
       = None
   \<and> map (\<lambda>c. cmdArgs c ! 1)
         (spawned (ClaudeToolHandler_execute (arrayWorld n) (inSession ''s1'' ''Final question'')
            (storage (ClaudeToolHandler_execute (arrayWorld n) (inSession ''s1'' ''Question'') Map.empty))))
       = [''Context: Question -> '' @ longText n @ ''...'' @ [CHR 0x0A, CHR 0x0A] @ ''Task: Final question'']
   \<and> map (\<lambda>c. length (cmdArgs c ! 1))
         (spawned (ClaudeToolHandler_execute (arrayWorld n) (inSession ''s1'' ''Final question'')
            (storage (ClaudeToolHandler_execute (arrayWorld n) (inSession ''s1'' ''Question'') Map.empty))))
       = [n + 46]\<close>
proof -
  let ?t = "\<lparr>turn_prompt = ''Question'', turn_response = JArr [JStr (longText n)], timestamp = 7\<rparr>"
  let ?s1 = "storage (ClaudeToolHandler_execute (arrayWorld n) (inSession ''s1'' ''Question'') Map.empty)"
  have s1: "?s1 = Map.empty(''s1'' \<mapsto>
      \<lparr>ident = ''s1'', createdAt = 7, lastAccessedAt = 7, turns = [?t], claudeSessionId = None\<rparr>)"
    by (simp add: handler_defs schema_defs fixture_defs store_defs arrayWorld_def resultWorld_def)
  have l: "contextLine ?t = Some (''Context: Question -> '' @ longText n @ ''...'')"
    by (simp add: contextLine_def longText_neq[symmetric])
  have b: "buildEnhancedPrompt [?t] ''Final question''
      = Some (''Context: Question -> '' @ longText n @ ''...'' @ [CHR 0x0A, CHR 0x0A] @ ''Task: Final question'')"
    by (simp add: buildEnhancedPrompt_def recentTurns_def l)
  have sent: "map (\<lambda>c. cmdArgs c ! 1)
         (spawned (ClaudeToolHandler_execute (arrayWorld n) (inSession ''s1'' ''Final question'') ?s1))
       = [''Context: Question -> '' @ longText n @ ''...'' @ [CHR 0x0A, CHR 0x0A] @ ''Task: Final question'']"
    unfolding s1
    by (simp add: handler_defs schema_defs fixture_defs store_defs arrayWorld_def resultWorld_def b)
  have len: "map (\<lambda>c. length (cmdArgs c ! 1))
         (spawned (ClaudeToolHandler_execute (arrayWorld n) (inSession ''s1'' ''Final question'') ?s1))
       = [n + 46]"
  proof -
    from sent have "map length (map (\<lambda>c. cmdArgs c ! 1)
         (spawned (ClaudeToolHandler_execute (arrayWorld n) (inSession ''s1'' ''Final question'') ?s1)))
       = map length [''Context: Question -> '' @ longText n @ ''...'' @ [CHR 0x0A, CHR 0x0A] @ ''Task: Final question'']"
      by (rule arg_cong)
    then show ?thesis by (simp add: o_def length_longText)
  qed
  have t: "turns_of ?s1 ''s1'' = [?t]" unfolding s1 by (simp add: turns_of_def)
  have h: "getClaudeSessionId ?s1 ''s1'' = None" unfolding s1 by (simp add: getClaudeSessionId_def)
  from t h sent len show ?thesis by simp
qed

text \<open>
  A stored response that is a number has no \<^verbatim>\<open>includes\<close>: the next call in the session
  throws while it synthesizes the prompt, calls no subprocess, and records no turn.
\<close>

lemma number_response_throws:
  \<open>turns_of (storage (ClaudeToolHandler_execute numberWorld (inSession ''s1'' ''Question'') Map.empty)) ''s1''
     = [\<lparr>turn_prompt = ''Question'', turn_response = JNum ''42'', timestamp = 7\<rparr>]
   \<and> spawned (ClaudeToolHandler_execute numberWorld (inSession ''s1'' ''Final question'')
         (storage (ClaudeToolHandler_execute numberWorld (inSession ''s1'' ''Question'') Map.empty)))
       = []
   \<and> returned (ClaudeToolHandler_execute numberWorld (inSession ''s1'' ''Final question'')
         (storage (ClaudeToolHandler_execute numberWorld (inSession ''s1'' ''Question'') Map.empty)))
       = Inl (ToolExecutionError CLAUDE ''Failed to execute claude command'')\<close>
proof -
  let ?t = "\<lparr>turn_prompt = ''Question'', turn_response = JNum ''42'', timestamp = 7\<rparr>"
  let ?s1 = "storage (ClaudeToolHandler_execute numberWorld (inSession ''s1'' ''Question'') Map.empty)"
  have s1: "?s1 = Map.empty(''s1'' \<mapsto>
      \<lparr>ident = ''s1'', createdAt = 7, lastAccessedAt = 7, turns = [?t], claudeSessionId = None\<rparr>)"
    by (simp add: handler_defs schema_defs fixture_defs store_defs numberWorld_def resultWorld_def)
  have b: "buildEnhancedPrompt [?t] ''Final question'' = None"
    by (simp add: buildEnhancedPrompt_def recentTurns_def contextLine_def)
  have t: "turns_of ?s1 ''s1'' = [?t]" unfolding s1 by (simp add: turns_of_def)
  have e: "spawned (ClaudeToolHandler_execute numberWorld (inSession ''s1'' ''Final question'') ?s1) = []
      \<and> returned (ClaudeToolHandler_execute numberWorld (inSession ''s1'' ''Final question'') ?s1)
          = Inl (ToolExecutionError CLAUDE ''Failed to execute claude command'')"
    unfolding s1
    by (simp add: handler_defs schema_defs fixture_defs store_defs numberWorld_def resultWorld_def b)
  from t e show ?thesis by simp
qed

section \<open>Review prompt and uncommitted flag (C8)\<close>

text \<open>
  Claim C8, as amended. A review request with a non-empty prompt and \<open>uncommitted\<close> true
  fails with the validation error of the review tool, before any subprocess call and not
  wrapped as an execution error. A request with no prompt, an empty prompt, or
  \<open>uncommitted\<close> absent or false passes the check: the subprocess is called, and whatever
  the call returns or throws is not a validation error.
\<close>

theorem review_prompt_uncommitted_exclusive:
  "(\<forall>p. review_prompt a = Some p \<and> p \<noteq> [] \<and> uncommitted a = Some True \<longrightarrow>
      ReviewToolHandler_execute w a =
        ([], Inl (ValidationError REVIEW (Text
          ''The review prompt cannot be combined with uncommitted=true. Use a base/commit review or omit the prompt.''))))
   \<and> (review_prompt a = None \<or> review_prompt a = Some [] \<or> uncommitted a \<noteq> Some True \<longrightarrow>
        length (fst (ReviewToolHandler_execute w a)) = 1
        \<and> (\<forall>t m. snd (ReviewToolHandler_execute w a) \<noteq> Inl (ValidationError t m)))"
proof -
  have rej: "ReviewToolHandler_execute w a =
        ([], Inl (ValidationError REVIEW (Text
          ''The review prompt cannot be combined with uncommitted=true. Use a base/commit review or omit the prompt.'')))"
    if "review_prompt a = Some p" "p \<noteq> []" "uncommitted a = Some True" for p
    using that by (simp add: ReviewToolHandler_execute_def ReviewToolSchema_parse_def)
  have acc: "length (fst (ReviewToolHandler_execute w a)) = 1
        \<and> (\<forall>t m. snd (ReviewToolHandler_execute w a) \<noteq> Inl (ValidationError t m))"
    if "review_prompt a = None \<or> review_prompt a = Some [] \<or> uncommitted a \<noteq> Some True"
  proof -
    from that have "\<not> (truthy (review_prompt a) \<and> truthy_bool (uncommitted a))"
      by (cases "uncommitted a") auto
    then show ?thesis
      by (auto simp: ReviewToolHandler_execute_def ReviewToolSchema_parse_def Let_def
          split: option.splits prod.splits)
  qed
  from rej acc show ?thesis by blast
qed

text \<open>
  C8 at a request with both, one with the flag alone, and one with the prompt alone.
\<close>

theorem review_prompt_uncommitted_exclusive_witness:
  \<open>review_prompt (reviewOf (Some ''Check the error handling'') (Some True)) = Some ''Check the error handling''
   \<and> ''Check the error handling'' \<noteq> []
   \<and> uncommitted (reviewOf (Some ''Check the error handling'') (Some True)) = Some True
   \<and> ReviewToolHandler_execute (mockWorld None \<lparr>stdout = ''{"result":"Response"}'', stderr = []\<rparr>)
        (reviewOf (Some ''Check the error handling'') (Some True))
      = ([], Inl (ValidationError REVIEW (Text
          ''The review prompt cannot be combined with uncommitted=true. Use a base/commit review or omit the prompt.'')))
   \<and> review_prompt (reviewOf None (Some True)) = None
   \<and> length (fst (ReviewToolHandler_execute (mockWorld None \<lparr>stdout = ''{"result":"Response"}'', stderr = []\<rparr>)
        (reviewOf None (Some True)))) = 1
   \<and> uncommitted (reviewOf (Some ''Check the error handling'') None) \<noteq> Some True
   \<and> length (fst (ReviewToolHandler_execute (mockWorld None \<lparr>stdout = ''{"result":"Response"}'', stderr = []\<rparr>)
        (reviewOf (Some ''Check the error handling'') None))) = 1\<close>
proof -
  let ?w = \<open>mockWorld None \<lparr>stdout = ''{"result":"Response"}'', stderr = []\<rparr>\<close>
  let ?both = "reviewOf (Some ''Check the error handling'') (Some True)"
  let ?flag = "reviewOf None (Some True)"
  let ?text = "reviewOf (Some ''Check the error handling'') None"
  have b: "review_prompt ?both = Some ''Check the error handling''" "''Check the error handling'' \<noteq> []"
    "uncommitted ?both = Some True"
    by (simp_all add: fixture_defs)
  have f: "review_prompt ?flag = None" by (simp add: fixture_defs)
  have t: "uncommitted ?text \<noteq> Some True" by (simp add: fixture_defs)
  from review_prompt_uncommitted_exclusive[of ?both ?w] b
  have r1: "ReviewToolHandler_execute ?w ?both
      = ([], Inl (ValidationError REVIEW (Text
          ''The review prompt cannot be combined with uncommitted=true. Use a base/commit review or omit the prompt.'')))"
    by blast
  from review_prompt_uncommitted_exclusive[of ?flag ?w] f
  have r2: "length (fst (ReviewToolHandler_execute ?w ?flag)) = 1" by blast
  from review_prompt_uncommitted_exclusive[of ?text ?w] t
  have r3: "length (fst (ReviewToolHandler_execute ?w ?text)) = 1" by blast
  from b f t r1 r2 r3 show ?thesis by simp
qed

text \<open>
  C8 as stated fails: a request that carries the prompt field, empty, together with the
  uncommitted flag is accepted, and the subprocess is called with the working-tree review
  prompt.
\<close>

theorem empty_review_prompt_counterexample:
  \<open>review_prompt (reviewOf (Some []) (Some True)) = Some []
   \<and> uncommitted (reviewOf (Some []) (Some True)) = Some True
   \<and> map cmdArgs (fst (ReviewToolHandler_execute (mockWorld None \<lparr>stdout = ''{"result":"Response"}'', stderr = []\<rparr>)
        (reviewOf (Some []) (Some True))))
      = [[''-p'',
          ''Review staged, unstaged, and untracked changes (working tree diff). Please provide a detailed code review.'',
          ''--model'', ''claude-sonnet-4-6'', ''--output-format'', ''json'']]
   \<and> \<not> isl (snd (ReviewToolHandler_execute (mockWorld None \<lparr>stdout = ''{"result":"Response"}'', stderr = []\<rparr>)
        (reviewOf (Some []) (Some True))))\<close>
  by (simp add: ReviewToolHandler_execute_def ReviewToolSchema_parse_def reviewArgs_def reviewPrompt_def
      reviewContext_def reviewMetadata_def handler_defs fixture_defs)

section \<open>Session id validation (C9)\<close>

text \<open>
  Claim C9. A call whose session id is longer than 256 characters, empty, or has a
  character outside letters, digits, underscore and hyphen throws the validation error
  of the claude tool, with \<open>sessionId\<close> among the issues; no subprocess is called and the
  store is untouched.
\<close>

theorem invalid_session_id_rejected:
  assumes "sessionId a = Some s"
    and "\<not> (length s \<le> 256 \<and> s \<noteq> []
             \<and> set s \<subseteq> set ''abcdefghijklmnopqrstuvwxyzABCDEFGHIJKLMNOPQRSTUVWXYZ0123456789_-'')"
  shows "ClaudeToolHandler_execute w a st =
           \<lparr>storage = st, spawned = [],
            returned = Inl (ValidationError CLAUDE (Issues (ClaudeToolSchema_issues (is_url w) a)))\<rparr>
         \<and> ''sessionId'' \<in> set (ClaudeToolSchema_issues (is_url w) a)"
proof -
  from assms(2) have "sessionId_issues (Some s) \<noteq> []"
    using sessionId_issues_empty[of s] by blast
  then have m: "''sessionId'' \<in> set (sessionId_issues (sessionId a))"
    using assms(1) by (auto simp: sessionId_issues_def split: if_splits)
  then have i: "''sessionId'' \<in> set (ClaudeToolSchema_issues (is_url w) a)"
    by (simp add: ClaudeToolSchema_issues_def)
  then obtain x xs where "ClaudeToolSchema_issues (is_url w) a = x # xs"
    by (cases "ClaudeToolSchema_issues (is_url w) a") auto
  then have "ClaudeToolHandler_execute w a st =
           \<lparr>storage = st, spawned = [],
            returned = Inl (ValidationError CLAUDE (Issues (ClaudeToolSchema_issues (is_url w) a)))\<rparr>"
    by (simp add: ClaudeToolHandler_execute_def ClaudeToolSchema_parse_def)
  with i show ?thesis by simp
qed

text \<open>
  C9 at a session id with a space, at the empty one, and at one with dots and a slash.
\<close>

theorem invalid_session_id_rejected_witness:
  \<open>sessionId (inSession ''my session'' ''Test prompt'') = Some ''my session''
   \<and> \<not> (length ''my session'' \<le> 256 \<and> ''my session'' \<noteq> []
          \<and> set ''my session'' \<subseteq> set ''abcdefghijklmnopqrstuvwxyzABCDEFGHIJKLMNOPQRSTUVWXYZ0123456789_-'')
   \<and> spawned (ClaudeToolHandler_execute (mockWorld None \<lparr>stdout = ''{"result":"Response"}'', stderr = []\<rparr>)
        (inSession ''my session'' ''Test prompt'') Map.empty) = []
   \<and> returned (ClaudeToolHandler_execute (mockWorld None \<lparr>stdout = ''{"result":"Response"}'', stderr = []\<rparr>)
        (inSession ''my session'' ''Test prompt'') Map.empty)
      = Inl (ValidationError CLAUDE (Issues [''sessionId'']))
   \<and> returned (ClaudeToolHandler_execute (mockWorld None \<lparr>stdout = ''{"result":"Response"}'', stderr = []\<rparr>)
        (inSession [] ''Test prompt'') Map.empty)
      = Inl (ValidationError CLAUDE (Issues [''sessionId'']))
   \<and> returned (ClaudeToolHandler_execute (mockWorld None \<lparr>stdout = ''{"result":"Response"}'', stderr = []\<rparr>)
        (inSession ''../etc'' ''Test prompt'') Map.empty)
      = Inl (ValidationError CLAUDE (Issues [''sessionId'']))\<close>
proof -
  let ?w = \<open>mockWorld None \<lparr>stdout = ''{"result":"Response"}'', stderr = []\<rparr>\<close>
  let ?ok = "\<lambda>s. length s \<le> 256 \<and> s \<noteq> []
          \<and> set s \<subseteq> set ''abcdefghijklmnopqrstuvwxyzABCDEFGHIJKLMNOPQRSTUVWXYZ0123456789_-''"
  have a1: "sessionId (inSession ''my session'' ''Test prompt'') = Some ''my session''"
    by (simp add: fixture_defs)
  have a2: "\<not> ?ok ''my session''" by simp
  have b1: "sessionId (inSession [] ''Test prompt'') = Some []" by (simp add: fixture_defs)
  have b2: "\<not> ?ok []" by simp
  have c1: "sessionId (inSession ''../etc'' ''Test prompt'') = Some ''../etc''" by (simp add: fixture_defs)
  have c2: "\<not> ?ok ''../etc''" by simp
  have i: "ClaudeToolSchema_issues (is_url ?w) (inSession ''my session'' ''Test prompt'') = [''sessionId'']"
    "ClaudeToolSchema_issues (is_url ?w) (inSession [] ''Test prompt'') = [''sessionId'']"
    "ClaudeToolSchema_issues (is_url ?w) (inSession ''../etc'' ''Test prompt'') = [''sessionId'']"
    by (simp_all add: schema_defs fixture_defs)
  from invalid_session_id_rejected[OF a1 a2, of ?w Map.empty]
    invalid_session_id_rejected[OF b1 b2, of ?w Map.empty]
    invalid_session_id_rejected[OF c1 c2, of ?w Map.empty] i a1 a2
  show ?thesis by simp
qed

section \<open>The recorded prompt (C10)\<close>

text \<open>
  Claim C10. For a call with a session id: when the subprocess resolves, the session's
  turns afterwards are the turns it had (none after a reset) followed by one turn whose
  prompt is the caller's prompt; when the subprocess call is rejected, or not made
  because synthesizing the prompt throws, no turn is added; and the turns of every other session stay as they were. So no recorded prompt is the
  synthesized one.
\<close>

theorem turn_records_original_prompt:
  assumes "ClaudeToolSchema_parse (is_url w) a = Inr a" and "sessionId a = Some i"
  shows "(\<forall>r. map (runCommand w) (spawned (ClaudeToolHandler_execute w a st)) = [Some r] \<longrightarrow>
            turns_of (storage (ClaudeToolHandler_execute w a st)) i =
              (if truthy_bool (resetSession a) then [] else turns_of st i)
              @ [\<lparr>turn_prompt = prompt a,
                  turn_response = fst (parseOutput w ''No output from Claude'' r),
                  timestamp = now w\<rparr>])
       \<and> (map (runCommand w) (spawned (ClaudeToolHandler_execute w a st)) = [None] \<longrightarrow>
            turns_of (storage (ClaudeToolHandler_execute w a st)) i =
              (if truthy_bool (resetSession a) then [] else turns_of st i))
       \<and> (spawned (ClaudeToolHandler_execute w a st) = [] \<longrightarrow>
            turns_of (storage (ClaudeToolHandler_execute w a st)) i =
              (if truthy_bool (resetSession a) then [] else turns_of st i))
       \<and> (\<forall>j. j \<noteq> i \<longrightarrow> turns_of (storage (ClaudeToolHandler_execute w a st)) j = turns_of st j)"
proof -
  have ne: "i \<noteq> []" using assms parsed_sessionId_nonempty by blast
  have ok: "turns_of (storage (ClaudeToolHandler_execute w a st)) i =
              (if truthy_bool (resetSession a) then [] else turns_of st i)
              @ [\<lparr>turn_prompt = prompt a,
                  turn_response = fst (parseOutput w ''No output from Claude'' r),
                  timestamp = now w\<rparr>]"
    if "map (runCommand w) (spawned (ClaudeToolHandler_execute w a st)) = [Some r]" for r
    by (simp add: execute_resolved_parts(1)[OF assms(1) that] persist_turns[OF assms(2) ne]
        prepared_turns[OF assms(2) ne] turns_of_ensureAndReset)
  have st1: "storage (ClaudeToolHandler_execute w a st) = fst (prepareSession w a st)"
    if "map (runCommand w) (spawned (ClaudeToolHandler_execute w a st)) = [None]"
    using that assms(1)
    by (auto simp: ClaudeToolHandler_execute_def Let_def split: prod.splits option.splits)
  have failed: "turns_of (storage (ClaudeToolHandler_execute w a st)) i =
              (if truthy_bool (resetSession a) then [] else turns_of st i)"
    if "map (runCommand w) (spawned (ClaudeToolHandler_execute w a st)) = [None]"
    by (simp add: st1[OF that] prepared_turns[OF assms(2) ne] turns_of_ensureAndReset)
  have st0: "storage (ClaudeToolHandler_execute w a st) = fst (prepareSession w a st)"
    if "spawned (ClaudeToolHandler_execute w a st) = []"
    using that assms(1)
    by (auto simp: ClaudeToolHandler_execute_def Let_def split: prod.splits option.splits)
  have thrown: "turns_of (storage (ClaudeToolHandler_execute w a st)) i =
              (if truthy_bool (resetSession a) then [] else turns_of st i)"
    if "spawned (ClaudeToolHandler_execute w a st) = []"
    by (simp add: st0[OF that] prepared_turns[OF assms(2) ne] turns_of_ensureAndReset)
  have other: "turns_of (storage (ClaudeToolHandler_execute w a st)) j = turns_of st j" if "j \<noteq> i" for j
  proof -
    have p: "fst (prepareSession w a st) j = st j" by (rule prepared_other[OF assms(2) ne that])
    have "storage (ClaudeToolHandler_execute w a st) j = st j"
      using assms(1) p persist_other[OF assms(2) that]
      by (auto simp: ClaudeToolHandler_execute_def Let_def split: prod.splits option.splits)
    then show ?thesis by (simp add: turns_of_def)
  qed
  from ok failed thrown other show ?thesis by blast
qed

text \<open>
  C10 at a follow-up in a session with one earlier turn: the subprocess gets the
  synthesized prompt, the stored turn has the caller's.
\<close>

theorem turn_records_original_prompt_witness:
  \<open>ClaudeToolSchema_parse (is_url (mockWorld None \<lparr>stdout = ''{"result":"Response"}'', stderr = []\<rparr>))
      (inSession ''s1'' ''Follow up question'') = Inr (inSession ''s1'' ''Follow up question'')
   \<and> sessionId (inSession ''s1'' ''Follow up question'') = Some ''s1''
   \<and> map (runCommand (mockWorld None \<lparr>stdout = ''{"result":"Response"}'', stderr = []\<rparr>))
        (spawned (ClaudeToolHandler_execute
          (mockWorld None \<lparr>stdout = ''{"result":"Response"}'', stderr = []\<rparr>)
          (inSession ''s1'' ''Follow up question'')
          (storeWith ''s1'' [\<lparr>turn_prompt = ''Previous question'', turn_response = JStr ''Previous answer'', timestamp = 3\<rparr>] None)))
      = [Some \<lparr>stdout = ''{"result":"Response"}'', stderr = []\<rparr>]
   \<and> map (\<lambda>c. cmdArgs c ! 1)
        (spawned (ClaudeToolHandler_execute
          (mockWorld None \<lparr>stdout = ''{"result":"Response"}'', stderr = []\<rparr>)
          (inSession ''s1'' ''Follow up question'')
          (storeWith ''s1'' [\<lparr>turn_prompt = ''Previous question'', turn_response = JStr ''Previous answer'', timestamp = 3\<rparr>] None)))
      = [''Context: Previous question -> Previous answer...'' @ [CHR 0x0A, CHR 0x0A] @ ''Task: Follow up question'']
   \<and> turns_of (storage (ClaudeToolHandler_execute
          (mockWorld None \<lparr>stdout = ''{"result":"Response"}'', stderr = []\<rparr>)
          (inSession ''s1'' ''Follow up question'')
          (storeWith ''s1'' [\<lparr>turn_prompt = ''Previous question'', turn_response = JStr ''Previous answer'', timestamp = 3\<rparr>] None)))
        ''s1''
      = [\<lparr>turn_prompt = ''Previous question'', turn_response = JStr ''Previous answer'', timestamp = 3\<rparr>,
         \<lparr>turn_prompt = ''Follow up question'', turn_response = JStr ''Response'', timestamp = 7\<rparr>]\<close>
proof -
  let ?r = \<open>\<lparr>stdout = ''{"result":"Response"}'', stderr = []\<rparr>\<close>
  let ?w = "mockWorld None ?r"
  let ?a = "inSession ''s1'' ''Follow up question''"
  let ?st = "storeWith ''s1'' [\<lparr>turn_prompt = ''Previous question'', turn_response = JStr ''Previous answer'', timestamp = 3\<rparr>] None"
  have h1: "ClaudeToolSchema_parse (is_url ?w) ?a = Inr ?a"
    by (simp add: schema_defs fixture_defs)
  have h2: "sessionId ?a = Some ''s1''" by (simp add: fixture_defs)
  have h3: "map (runCommand ?w) (spawned (ClaudeToolHandler_execute ?w ?a ?st)) = [Some ?r]"
    by (simp add: handler_defs schema_defs fixture_defs store_defs buildEnhancedPrompt_def recentTurns_def contextLine_def)
  have sent: "map (\<lambda>c. cmdArgs c ! 1) (spawned (ClaudeToolHandler_execute ?w ?a ?st))
      = [''Context: Previous question -> Previous answer...'' @ [CHR 0x0A, CHR 0x0A] @ ''Task: Follow up question'']"
    by (simp add: handler_defs schema_defs fixture_defs store_defs buildEnhancedPrompt_def recentTurns_def contextLine_def)
  have f: "\<not> truthy_bool (resetSession ?a)" "prompt ?a = ''Follow up question''" "now ?w = 7"
    "turns_of ?st ''s1'' = [\<lparr>turn_prompt = ''Previous question'', turn_response = JStr ''Previous answer'', timestamp = 3\<rparr>]"
    "fst (parseOutput ?w ''No output from Claude'' ?r) = JStr ''Response''"
    by (simp_all add: fixture_defs turns_of_def parseOutput_def)
  from turn_records_original_prompt[OF h1 h2, of ?st] h3 f
  have "turns_of (storage (ClaudeToolHandler_execute ?w ?a ?st)) ''s1''
      = [\<lparr>turn_prompt = ''Previous question'', turn_response = JStr ''Previous answer'', timestamp = 3\<rparr>,
         \<lparr>turn_prompt = ''Follow up question'', turn_response = JStr ''Response'', timestamp = 7\<rparr>]"
    by simp
  with h1 h2 h3 sent show ?thesis by simp
qed

end
